theory Spec2Isabelle
  imports Complex_Main "HOL-Library.Multiset" "HOL-Library.Sublist"
begin

section \<open>Python values shared by both notebooks\<close>

text \<open>
  The two notebooks are Python scripts over pandas, scikit-learn, boto3, the SageMaker SDK
  and Keras. Every exception is a value: its class name and the text \<open>str(e)\<close> that
  \<open>print(e)\<close> shows. Text is \<open>string\<close>; a path is the text the source passes.
\<close>

datatype exn = Exn (exn_class: string) (exn_msg: string)

type_synonym path = string

definition IndexError :: exn where
  "IndexError = Exn ''IndexError'' ''list index out of range''"

definition KeyError :: "string \<Rightarrow> exn" where
  "KeyError k = Exn ''KeyError'' ([CHR 0x27] @ k @ [CHR 0x27])"

definition newline :: char where
  "newline = CHR 0x0A"

definition space :: char where
  "space = CHR '' ''"

text \<open>\<open>s.split(sep)\<close> for a one-character separator: every occurrence cuts, empty pieces
  are kept, and the result is never empty.\<close>

fun py_split :: "char \<Rightarrow> string \<Rightarrow> string list" where
  "py_split sep [] = [[]]"
| "py_split sep (c # cs) =
     (if c = sep then [] # py_split sep cs
      else (case py_split sep cs of
              [] \<Rightarrow> [[c]]
            | w # ws \<Rightarrow> (c # w) # ws))"

text \<open>\<open>xs[i]\<close>: a negative index counts from the end; out of range raises IndexError.\<close>

definition py_getitem :: "'a list \<Rightarrow> int \<Rightarrow> exn + 'a" where
  "py_getitem xs i =
     (let n = int (length xs);
          j = (if i < 0 then i + n else i)
      in if j < 0 \<or> n \<le> j then Inl IndexError else Inr (xs ! nat j))"

text \<open>\<open>str(n)\<close> for a natural number.\<close>

function str_nat :: "nat \<Rightarrow> string" where
  "str_nat n =
     (if n < 10 then [''0123456789'' ! n]
      else str_nat (n div 10) @ [''0123456789'' ! (n mod 10)])"
  by pat_completeness auto
termination
  by (relation "measure id") auto

declare str_nat.simps [simp del]

section \<open>Workflow 1: job-name extraction\<close>

text \<open>
  \<^verbatim>\<open>job_name = str(output).split("\n")[1].split(" ")[-1]\<close>
  where \<open>output\<close> is the captured cell output; \<open>str(output)\<close> is its stdout text, the
  argument here.
\<close>

definition job_name :: "string \<Rightarrow> exn + string" where
  "job_name output =
     (case py_getitem (py_split newline output) 1 of
        Inl e \<Rightarrow> Inl e
      | Inr line \<Rightarrow> py_getitem (py_split space line) (- 1))"

text \<open>The piece of a line after its last space (the whole line when it has none).\<close>

definition last_token :: "string \<Rightarrow> string" where
  "last_token line = rev (takeWhile (\<lambda>c. c \<noteq> space) (rev line))"

text \<open>What the specification calls an explicit "malformed output" error: one that says so,
  in its class name or in its message.\<close>

definition malformed_output_error :: "exn \<Rightarrow> bool" where
  "malformed_output_error e \<longleftrightarrow>
     sublist ''malformed output'' (exn_msg e) \<or> sublist ''Malformed'' (exn_class e)"

section \<open>Workflow 1: output bindings and the verification step\<close>

text \<open>\<open>range(a, b)\<close>.\<close>

definition py_range :: "nat \<Rightarrow> nat \<Rightarrow> nat list" where
  "py_range a b = [a..<b]"

text \<open>
  The submission:
  \<^verbatim>\<open>outputs=[ProcessingOutput(source="/opt/ml/processing/output/train"),
           ProcessingOutput(source="/opt/ml/processing/output/validation"),
           ProcessingOutput(source="/opt/ml/processing/output/test")]\<close>
  No destination and no output name is given.
\<close>

record processing_output =
  source :: path
  destination :: "string option"
  output_name :: "string option"

definition ProcessingOutput :: "path \<Rightarrow> processing_output" where
  "ProcessingOutput src = \<lparr>source = src, destination = None, output_name = None\<rparr>"

definition train_dir :: path where
  "train_dir = ''/opt/ml/processing/output/train''"

definition validation_dir :: path where
  "validation_dir = ''/opt/ml/processing/output/validation''"

definition test_dir :: path where
  "test_dir = ''/opt/ml/processing/output/test''"

definition run_outputs :: "processing_output list" where
  "run_outputs =
     [ProcessingOutput train_dir, ProcessingOutput validation_dir, ProcessingOutput test_dir]"

text \<open>
  Modelled from the spec: the platform's naming of outputs that carry no destination,
  which is the SageMaker SDK's and not in this repository. The specification: "platform
  convention derives an object-storage destination automatically, one sub-prefix per
  output in submission order: \<open>output-1\<close>, \<open>output-2\<close>, \<open>output-3\<close>", under the
  job's prefix \<open><job_name>/output/\<close> of the default bucket.
\<close>

definition platform_output_names :: "processing_output list \<Rightarrow> string list" where
  "platform_output_names outs = map (\<lambda>i. ''output-'' @ str_nat (Suc i)) [0..<length outs]"

text \<open>
  Modelled from the spec: where the platform stores each output, which is the SageMaker
  SDK's and not in this repository. The specification has the objects of the i-th output
  "under the key prefix \<open><job_name>/output/output-<i>/\<close> in the session's default
  bucket".
\<close>

definition platform_output_prefixes :: "string \<Rightarrow> processing_output list \<Rightarrow> (path \<times> string) list" where
  "platform_output_prefixes job outs =
     zip (map source outs) (map (\<lambda>n. job @ ''/output/'' @ n @ ''/'') (platform_output_names outs))"

text \<open>
  The verification cell:
  \<^verbatim>\<open>for i in range(1, 4):
    prefix = s3_client.list_objects(
        Bucket=default_bucket, Prefix=job_name + "/output/output-" + str(i) + "/"
    )["Contents"][0]["Key"]
    print("s3://" + default_bucket + "/" + prefix)\<close>
  The object store is a parameter: what \<open>list_objects\<close> answers for a bucket and a
  prefix, or the exception it raises. The answer is a dictionary in which the key
  \<open>Contents\<close> may be missing; each listed object has a \<open>Key\<close>.
\<close>

record s3_object =
  Key :: string

record list_objects_response =
  Contents :: "s3_object list option"

type_synonym s3_client = "string \<Rightarrow> string \<Rightarrow> exn + list_objects_response"

definition listing_prefix :: "string \<Rightarrow> nat \<Rightarrow> string" where
  "listing_prefix job i = job @ ''/output/output-'' @ str_nat i @ ''/''"

text \<open>The loop: the printed lines so far, and the exception that ended it, if any.\<close>

fun verify_loop ::
  "s3_client \<Rightarrow> string \<Rightarrow> string \<Rightarrow> nat list \<Rightarrow> string list \<Rightarrow> string list \<times> exn option" where
  "verify_loop list_objects default_bucket job [] out = (out, None)"
| "verify_loop list_objects default_bucket job (i # rest) out =
     (case list_objects default_bucket (listing_prefix job i) of
        Inl e \<Rightarrow> (out, Some e)
      | Inr response \<Rightarrow>
          (case Contents response of
             None \<Rightarrow> (out, Some (KeyError ''Contents''))
           | Some objects \<Rightarrow>
               (case py_getitem objects 0 of
                  Inl e \<Rightarrow> (out, Some e)
                | Inr obj \<Rightarrow>
                    verify_loop list_objects default_bucket job rest
                      (out @ [''s3://'' @ default_bucket @ ''/'' @ Key obj]))))"

definition verify_outputs :: "s3_client \<Rightarrow> string \<Rightarrow> string \<Rightarrow> string list \<times> exn option" where
  "verify_outputs list_objects default_bucket job =
     verify_loop list_objects default_bucket job (py_range 1 4) []"

text \<open>A listing with no object: the key \<open>Contents\<close> is missing, or its list is empty.\<close>

definition empty_listing :: "list_objects_response \<Rightarrow> bool" where
  "empty_listing response \<longleftrightarrow> (case Contents response of None \<Rightarrow> True | Some objects \<Rightarrow> objects = [])"


section \<open>Workflow 2: the model definition\<close>

text \<open>
  \<^verbatim>\<open>def iris_mlp(metrics):
    output_activation = "softmax"
    loss = "sparse_categorical_crossentropy"
    input = Input(shape=(4,), name="input")
    x = Dense(units=10, kernel_regularizer=tf.keras.regularizers.l2(0.001),
              activation="relu", name="dense_layer1")(input)
    x = Dense(units=20, kernel_regularizer=tf.keras.regularizers.l2(0.001),
              activation="relu", name="dense_layer2")(x)
    x = Dense(units=10, activation="relu",
              kernel_regularizer=tf.keras.regularizers.l2(0.001), name="dense_layer3")(x)
    output = Dense(units=3, activation=output_activation)(x)
    model = tf.keras.Model(input, output)
    model.compile(optimizer="adam", loss=loss, metrics=metrics)
    return model\<close>
  A symbolic tensor is its shape (without the batch axis) and the layers that lead to it;
  calling a dense layer on it replaces the last axis by the layer's units.

  Every layer has a name. A layer built without one takes it from a counter that Keras
  keeps for the whole process: the first such dense layer is \<open>dense\<close>, the next
  \<open>dense_1\<close>, then \<open>dense_2\<close>. The counter is state: building a layer takes it and
  returns it, advanced when a name was drawn from it. The model's own name, which Keras
  draws from a counter of its own, is not part of what is recorded here.
\<close>

datatype regularizer = L2 real

record dense_layer =
  units :: nat
  kernel_regularizer :: "regularizer option"
  activation :: "string option"
  layer_name :: string

record keras_tensor =
  tensor_name :: "string option"
  tensor_shape :: "nat list"
  history :: "dense_layer list"

record keras_model =
  inputs :: keras_tensor
  layers :: "dense_layer list"
  output_shape :: "nat list"
  optimizer :: "string option"
  loss :: "string option"
  metrics :: "string list option"

definition Input :: "nat list \<Rightarrow> string \<Rightarrow> keras_tensor" where
  "Input shape name = \<lparr>tensor_name = Some name, tensor_shape = shape, history = []\<rparr>"

text \<open>The automatic name of a dense layer when \<open>uid\<close> such names were given before.\<close>

definition auto_name :: "nat \<Rightarrow> string" where
  "auto_name uid = (if uid = 0 then ''dense'' else ''dense_'' @ str_nat uid)"

definition Dense ::
  "nat \<Rightarrow> regularizer option \<Rightarrow> string option \<Rightarrow> string option \<Rightarrow> nat \<Rightarrow> dense_layer \<times> nat" where
  "Dense u reg act name uid =
     (case name of
        Some n \<Rightarrow>
          (\<lparr>units = u, kernel_regularizer = reg, activation = act, layer_name = n\<rparr>, uid)
      | None \<Rightarrow>
          (\<lparr>units = u, kernel_regularizer = reg, activation = act, layer_name = auto_name uid\<rparr>,
           Suc uid))"

text \<open>\<open>layer(x)\<close>: a dense layer needs a last axis to work on.\<close>

definition call_layer :: "dense_layer \<Rightarrow> keras_tensor \<Rightarrow> exn + keras_tensor" where
  "call_layer layer x =
     (if tensor_shape x = [] then Inl (Exn ''ValueError'' ''Input has undefined rank'')
      else Inr \<lparr>tensor_name = None,
                tensor_shape = butlast (tensor_shape x) @ [units layer],
                history = history x @ [layer]\<rparr>)"

definition Model :: "keras_tensor \<Rightarrow> keras_tensor \<Rightarrow> keras_model" where
  "Model inp outp =
     \<lparr>inputs = inp, layers = history outp, output_shape = tensor_shape outp,
      optimizer = None, loss = None, metrics = None\<rparr>"

definition compile :: "string \<Rightarrow> string \<Rightarrow> string list \<Rightarrow> keras_model \<Rightarrow> keras_model" where
  "compile opt l ms model = model\<lparr>optimizer := Some opt, loss := Some l, metrics := Some ms\<rparr>"

text \<open>The function takes the name counter as it stands and returns it with its result.\<close>

definition iris_mlp :: "string list \<Rightarrow> nat \<Rightarrow> (exn + keras_model) \<times> nat" where
  "iris_mlp ms uid =
     (let output_activation = ''softmax'';
          loss = ''sparse_categorical_crossentropy'';
          input = Input [4] ''input'';
          (layer1, uid1) = Dense 10 (Some (L2 0.001)) (Some ''relu'') (Some ''dense_layer1'') uid
      in case call_layer layer1 input of
           Inl e \<Rightarrow> (Inl e, uid1)
         | Inr x1 \<Rightarrow>
        (let (layer2, uid2) =
               Dense 20 (Some (L2 0.001)) (Some ''relu'') (Some ''dense_layer2'') uid1
         in case call_layer layer2 x1 of
           Inl e \<Rightarrow> (Inl e, uid2)
         | Inr x2 \<Rightarrow>
        (let (layer3, uid3) =
               Dense 10 (Some (L2 0.001)) (Some ''relu'') (Some ''dense_layer3'') uid2
         in case call_layer layer3 x2 of
           Inl e \<Rightarrow> (Inl e, uid3)
         | Inr x3 \<Rightarrow>
        (let (layer4, uid4) = Dense 3 None (Some output_activation) None uid3
         in case call_layer layer4 x3 of
           Inl e \<Rightarrow> (Inl e, uid4)
         | Inr output \<Rightarrow> (Inr (compile ''adam'' loss ms (Model input output)), uid4)))))"

section \<open>Files and directories\<close>

text \<open>
  A file system maps a path to what is there: a directory, or a file with its content.
  \<open>os.remove\<close> deletes a file and raises when the path is missing or a directory;
  \<open>shutil.rmtree\<close> deletes a directory with everything below it and raises when the
  path is missing or not a directory. A statement returns the new file system and the
  exception it raised, if any.
\<close>

datatype 'c node = Dir | File 'c

type_synonym 'c filesystem = "path \<rightharpoonup> 'c node"

definition quoted :: "string \<Rightarrow> string" where
  "quoted s = [CHR 0x27] @ s @ [CHR 0x27]"

definition FileNotFoundError :: "path \<Rightarrow> exn" where
  "FileNotFoundError p = Exn ''FileNotFoundError'' (''[Errno 2] No such file or directory: '' @ quoted p)"

definition IsADirectoryError :: "path \<Rightarrow> exn" where
  "IsADirectoryError p = Exn ''IsADirectoryError'' (''[Errno 21] Is a directory: '' @ quoted p)"

definition NotADirectoryError :: "path \<Rightarrow> exn" where
  "NotADirectoryError p = Exn ''NotADirectoryError'' (''[Errno 20] Not a directory: '' @ quoted p)"

definition FileExistsError :: "path \<Rightarrow> exn" where
  "FileExistsError p = Exn ''FileExistsError'' (''[Errno 17] File exists: '' @ quoted p)"

definition os_remove :: "path \<Rightarrow> 'c filesystem \<Rightarrow> 'c filesystem \<times> exn option" where
  "os_remove p fs =
     (case fs p of
        None \<Rightarrow> (fs, Some (FileNotFoundError p))
      | Some Dir \<Rightarrow> (fs, Some (IsADirectoryError p))
      | Some (File c) \<Rightarrow> (fs(p := None), None))"

definition below :: "path \<Rightarrow> path \<Rightarrow> bool" where
  "below d q \<longleftrightarrow> q = d \<or> prefix (d @ ''/'') q"

definition shutil_rmtree :: "path \<Rightarrow> 'c filesystem \<Rightarrow> 'c filesystem \<times> exn option" where
  "shutil_rmtree p fs =
     (case fs p of
        None \<Rightarrow> (fs, Some (FileNotFoundError p))
      | Some (File c) \<Rightarrow> (fs, Some (NotADirectoryError p))
      | Some Dir \<Rightarrow> ((\<lambda>q. if below p q then None else fs q), None))"

text \<open>One statement after another: an exception ends the sequence where it is raised.\<close>

definition then_do ::
  "('s \<Rightarrow> 's \<times> exn option) \<Rightarrow> ('s \<Rightarrow> 's \<times> exn option) \<Rightarrow> 's \<Rightarrow> 's \<times> exn option" where
  "then_do f g s = (case f s of (s', None) \<Rightarrow> g s' | (s', Some e) \<Rightarrow> (s', Some e))"

section \<open>Workflow 2: local cleanup\<close>

text \<open>
  \<^verbatim>\<open>os.remove("model.tar.gz")
  os.remove("iris_test.csv")
  os.remove("iris_train.csv")
  os.remove("iris.data")
  shutil.rmtree("export")\<close>
  The cell has no \<open>try\<close>: the first exception leaves it.
\<close>

definition cleanup :: "'c filesystem \<Rightarrow> 'c filesystem \<times> exn option" where
  "cleanup =
     then_do (os_remove ''model.tar.gz'')
    (then_do (os_remove ''iris_test.csv'')
    (then_do (os_remove ''iris_train.csv'')
    (then_do (os_remove ''iris.data'')
             (shutil_rmtree ''export''))))"

text \<open>A path holds a file.\<close>

definition is_file :: "'c filesystem \<Rightarrow> path \<Rightarrow> bool" where
  "is_file fs p \<longleftrightarrow> (case fs p of Some (File c) \<Rightarrow> True | _ \<Rightarrow> False)"


section \<open>Workflow 1: the partitioning script\<close>

text \<open>
  A data frame is its column labels and its rows, each row with its index label, a
  number as for a file read with the default index. A split keeps every row's label. A cell is a value as pandas holds it, written here as the
  text \<open>to_csv\<close> prints for it; which value pandas makes of a field of a file is
  the business of \<open>read_csv\<close>.
\<close>

record dataframe =
  columns :: "string list"
  rows :: "(nat \<times> string list) list"

definition shape :: "dataframe \<Rightarrow> nat \<times> nat" where
  "shape df = (length (rows df), length (columns df))"

definition index :: "dataframe \<Rightarrow> nat set" where
  "index df = set (map fst (rows df))"

text \<open>\<open>str\<close> of a pair of numbers, as \<open>print\<close> shows a shape.\<close>

definition str_pair :: "nat \<times> nat \<Rightarrow> string" where
  "str_pair p = ''('' @ str_nat (fst p) @ '', '' @ str_nat (snd p) @ '')''"

text \<open>\<open>os.path.join\<close> of two components.\<close>

definition os_path_join :: "path \<Rightarrow> path \<Rightarrow> path" where
  "os_path_join a b =
     (if b \<noteq> [] \<and> hd b = CHR ''/'' then b
      else if a = [] \<or> last a = CHR ''/'' then a @ b
      else a @ ''/'' @ b)"

text \<open>
  The script calls pandas, scikit-learn and the operating system. These are parameters:
  what each call returns or raises in a world \<open>'w\<close> (the container's files, the random
  state). A call that changes the world returns the new one, also when it raises.
\<close>

record 'w library =
  env_read_csv :: "path \<Rightarrow> 'w \<Rightarrow> exn + dataframe"
  env_train_test_split :: "dataframe \<Rightarrow> real \<Rightarrow> 'w \<Rightarrow> exn + dataframe \<times> dataframe"
  env_makedirs :: "path \<Rightarrow> 'w \<Rightarrow> 'w \<times> exn option"
  env_to_csv :: "dataframe \<Rightarrow> path \<Rightarrow> 'w \<Rightarrow> 'w \<times> exn option"

text \<open>The state of a run: the world, the lines printed, and the calls made so far.\<close>

datatype call = ReadCsv path | Makedirs path | ToCsv path

record 'w run_state =
  world :: 'w
  stdout :: "string list"
  calls :: "call list"

definition py_print :: "string \<Rightarrow> 'w run_state \<Rightarrow> 'w run_state \<times> exn option" where
  "py_print line s = (s\<lparr>stdout := stdout s @ [line]\<rparr>, None)"

definition call_makedirs :: "'w library \<Rightarrow> path \<Rightarrow> 'w run_state \<Rightarrow> 'w run_state \<times> exn option" where
  "call_makedirs lib p s =
     (case env_makedirs lib p (world s) of
        (w, r) \<Rightarrow> (s\<lparr>world := w, calls := calls s @ [Makedirs p]\<rparr>, r))"

definition call_to_csv ::
  "'w library \<Rightarrow> dataframe \<Rightarrow> path \<Rightarrow> 'w run_state \<Rightarrow> 'w run_state \<times> exn option" where
  "call_to_csv lib df p s =
     (case env_to_csv lib df p (world s) of
        (w, r) \<Rightarrow> (s\<lparr>world := w, calls := calls s @ [ToCsv p]\<rparr>, r))"

text \<open>\<open>try: body except Exception as e: handler\<close>. Every exception of the model is
  an \<open>Exception\<close>, so the handler takes whatever the body raises.\<close>

definition try_except ::
  "('s \<Rightarrow> 's \<times> exn option) \<Rightarrow> (exn \<Rightarrow> 's \<Rightarrow> 's \<times> exn option) \<Rightarrow> 's \<Rightarrow> 's \<times> exn option" where
  "try_except body handler s =
     (case body s of (s', None) \<Rightarrow> (s', None) | (s', Some e) \<Rightarrow> handler e s')"

text \<open>
  \<^verbatim>\<open>train, test = train_test_split(df, test_size=0.2)
  train, validation = train_test_split(train, test_size=0.2)\<close>
\<close>

definition three_way_split ::
  "'w library \<Rightarrow> dataframe \<Rightarrow> 'w \<Rightarrow> exn + dataframe \<times> dataframe \<times> dataframe" where
  "three_way_split lib df w =
     (case env_train_test_split lib df 0.2 w of
        Inl e \<Rightarrow> Inl e
      | Inr (train, test) \<Rightarrow>
          (case env_train_test_split lib train 0.2 w of
             Inl e \<Rightarrow> Inl e
           | Inr (train', validation) \<Rightarrow> Inr (train', validation, test)))"

text \<open>
  \<^verbatim>\<open>try:
    os.makedirs("/opt/ml/processing/output/train")
    os.makedirs("/opt/ml/processing/output/validation")
    os.makedirs("/opt/ml/processing/output/test")
    print("Successfully created directories")
except Exception as e:
    print(e)
    print("Could not make directories")
    pass\<close>
\<close>

definition make_directories :: "'w library \<Rightarrow> 'w run_state \<Rightarrow> 'w run_state \<times> exn option" where
  "make_directories lib =
     try_except
       (then_do (call_makedirs lib train_dir)
       (then_do (call_makedirs lib validation_dir)
       (then_do (call_makedirs lib test_dir)
                (py_print ''Successfully created directories''))))
       (\<lambda>e. then_do (py_print (exn_msg e)) (py_print ''Could not make directories''))"

text \<open>
  \<^verbatim>\<open>try:
    train.to_csv("/opt/ml/processing/output/train/train.csv")
    validation.to_csv("/opt/ml/processing/output/validation/validation.csv")
    test.to_csv("/opt/ml/processing/output/test/test.csv")
    print("Wrote files successfully")
except Exception as e:
    print("Failed to write the files")
    print(e)
    pass\<close>
\<close>

definition train_csv :: path where
  "train_csv = ''/opt/ml/processing/output/train/train.csv''"

definition validation_csv :: path where
  "validation_csv = ''/opt/ml/processing/output/validation/validation.csv''"

definition test_csv :: path where
  "test_csv = ''/opt/ml/processing/output/test/test.csv''"

definition write_files ::
  "'w library \<Rightarrow> dataframe \<Rightarrow> dataframe \<Rightarrow> dataframe \<Rightarrow> 'w run_state \<Rightarrow> 'w run_state \<times> exn option" where
  "write_files lib train validation test =
     try_except
       (then_do (call_to_csv lib train train_csv)
       (then_do (call_to_csv lib validation validation_csv)
       (then_do (call_to_csv lib test test_csv)
                (py_print ''Wrote files successfully''))))
       (\<lambda>e. then_do (py_print ''Failed to write the files'') (py_print (exn_msg e)))"

definition completion_marker :: string where
  "completion_marker = ''Completed running the processing job''"

definition input_data_path :: path where
  "input_data_path = os_path_join ''/opt/ml/processing/input'' ''dataset.csv''"

text \<open>The whole script. The read and the two splits stand outside every \<open>try\<close>.\<close>

definition preprocessing :: "'w library \<Rightarrow> 'w run_state \<Rightarrow> 'w run_state \<times> exn option" where
  "preprocessing lib s =
     (let s0 = s\<lparr>calls := calls s @ [ReadCsv input_data_path]\<rparr> in
      case env_read_csv lib input_data_path (world s) of
        Inl e \<Rightarrow> (s0, Some e)
      | Inr df \<Rightarrow>
          (let s1 = fst (py_print (''Shape of data is: '' @ str_pair (shape df)) s0) in
           case three_way_split lib df (world s1) of
             Inl e \<Rightarrow> (s1, Some e)
           | Inr (train, validation, test) \<Rightarrow>
               then_do (make_directories lib)
              (then_do (write_files lib train validation test)
                       (py_print completion_marker)) s1))"

subsection \<open>The script's output in one piece\<close>

text \<open>
  Calls one after another on the world, up to the first that raises: the world they
  leave and that exception.
\<close>

fun in_sequence :: "('w \<Rightarrow> 'w \<times> exn option) list \<Rightarrow> 'w \<Rightarrow> 'w \<times> exn option" where
  "in_sequence [] w = (w, None)"
| "in_sequence (f # fs) w =
     (case f w of (w', None) \<Rightarrow> in_sequence fs w' | (w', Some e) \<Rightarrow> (w', Some e))"

text \<open>The lines each block prints, by how its calls ended.\<close>

definition directory_lines :: "exn option \<Rightarrow> string list" where
  "directory_lines r =
     (case r of
        None \<Rightarrow> [''Successfully created directories'']
      | Some e \<Rightarrow> [exn_msg e, ''Could not make directories''])"

definition file_lines :: "exn option \<Rightarrow> string list" where
  "file_lines r =
     (case r of
        None \<Rightarrow> [''Wrote files successfully'']
      | Some e \<Rightarrow> [''Failed to write the files'', exn_msg e])"

definition makedirs_calls :: "'w library \<Rightarrow> ('w \<Rightarrow> 'w \<times> exn option) list" where
  "makedirs_calls lib =
     [env_makedirs lib train_dir, env_makedirs lib validation_dir, env_makedirs lib test_dir]"

definition to_csv_calls ::
  "'w library \<Rightarrow> dataframe \<Rightarrow> dataframe \<Rightarrow> dataframe \<Rightarrow> ('w \<Rightarrow> 'w \<times> exn option) list" where
  "to_csv_calls lib train validation test =
     [env_to_csv lib train train_csv, env_to_csv lib validation validation_csv,
      env_to_csv lib test test_csv]"

subsection \<open>What the script relies on in \<open>train_test_split\<close>\<close>

text \<open>
  scikit-learn is not part of the repository. Of \<open>train_test_split(df, test_size=0.2)\<close>
  on \<open>n\<close> rows the claims use this much: the test part has \<open>\<lceil>0.2 \<cdot> n\<rceil>\<close> rows, the
  train part has the others, every row lands in exactly one part, and the call returns
  when the train part is not empty. Nothing is asked of any other test size. The
  product is taken in exact arithmetic; the library's floating-point \<open>0.2 * n\<close> has the
  same ceiling for every row count a file can have.
\<close>

definition n_test_of :: "real \<Rightarrow> nat \<Rightarrow> nat" where
  "n_test_of test_size n = nat \<lceil>test_size * real n\<rceil>"

definition split_contract :: "'w library \<Rightarrow> bool" where
  "split_contract lib \<longleftrightarrow>
     (\<forall>df w.
        n_test_of 0.2 (length (rows df)) < length (rows df) \<longrightarrow>
        (\<exists>train test.
           env_train_test_split lib df 0.2 w = Inr (train, test) \<and>
           mset (rows train) + mset (rows test) = mset (rows df) \<and>
           length (rows test) = n_test_of 0.2 (length (rows df))))"

section \<open>A container: files, written tables and an unshuffled split\<close>

text \<open>
  One world in which the script can run: a file system whose files are CSV tables, a
  table being its lines and a line its fields.

  What \<open>pd.read_csv\<close> makes of a table (the labels it gives the columns, the values it
  makes of the fields, the index, the tables it refuses) is pandas' and is a parameter
  \<open>read_table\<close> of the container. \<open>df.to_csv(path)\<close>, with its defaults
  \<open>header=True, index=True\<close>, writes the labels after an empty label for the index, and
  each row after its index label.
\<close>

type_synonym csv = "string list list"

type_synonym table_reader = "csv \<Rightarrow> exn + dataframe"

definition format_csv :: "dataframe \<Rightarrow> csv" where
  "format_csv df = ([] # columns df) # map (\<lambda>r. str_nat (fst r) # snd r) (rows df)"

definition fs_read_csv :: "table_reader \<Rightarrow> path \<Rightarrow> csv filesystem \<Rightarrow> exn + dataframe" where
  "fs_read_csv read_table p fs =
     (case fs p of
        None \<Rightarrow> Inl (FileNotFoundError p)
      | Some Dir \<Rightarrow> Inl (IsADirectoryError p)
      | Some (File content) \<Rightarrow> read_table content)"

text \<open>\<open>os.path.dirname\<close>.\<close>

definition dirname :: "path \<Rightarrow> path" where
  "dirname p =
     (let head = rev (dropWhile (\<lambda>c. c \<noteq> CHR ''/'') (rev p))
      in if head \<noteq> [] \<and> head \<noteq> replicate (length head) (CHR ''/'')
         then rev (dropWhile (\<lambda>c. c = CHR ''/'') (rev head))
         else head)"

definition fs_to_csv :: "dataframe \<Rightarrow> path \<Rightarrow> csv filesystem \<Rightarrow> csv filesystem \<times> exn option" where
  "fs_to_csv df p fs =
     (if dirname p \<noteq> [] \<and> fs (dirname p) \<noteq> Some Dir then (fs, Some (FileNotFoundError p))
      else if fs p = Some Dir then (fs, Some (IsADirectoryError p))
      else (fs(p \<mapsto> File (format_csv df)), None))"

text \<open>The directories above a path, outermost first.\<close>

definition parents :: "path \<Rightarrow> path list" where
  "parents p = map (\<lambda>i. take i p) (filter (\<lambda>i. p ! i = CHR ''/'') [1..<length p])"

text \<open>\<open>os.makedirs(path)\<close>: raises when the path exists; creates the missing
  directories above it otherwise.\<close>

definition fs_makedirs :: "path \<Rightarrow> csv filesystem \<Rightarrow> csv filesystem \<times> exn option" where
  "fs_makedirs p fs =
     (if fs p \<noteq> None then (fs, Some (FileExistsError p))
      else if list_ex (is_file fs) (parents p) then (fs, Some (NotADirectoryError p))
      else (foldr (\<lambda>d m. m(d \<mapsto> Dir)) (parents p @ [p]) fs, None))"

text \<open>
  A split that does not shuffle: the first \<open>\<lceil>t \<cdot> n\<rceil>\<close> rows are the test part. As in
  scikit-learn, a test size outside the open interval from 0 to 1 raises, and so does
  an empty train part.
\<close>

definition split_unshuffled :: "dataframe \<Rightarrow> real \<Rightarrow> 'w \<Rightarrow> exn + dataframe \<times> dataframe" where
  "split_unshuffled df test_size w =
     (if test_size \<le> 0 \<or> 1 \<le> test_size
      then Inl (Exn ''ValueError'' ''test_size should be a float in the (0, 1) range'')
      else
        (let n = length (rows df);
             n_test = n_test_of test_size n;
             n_train = n - n_test
         in if n_train = 0
            then Inl (Exn ''ValueError'' ''the resulting train set will be empty'')
            else Inr (df\<lparr>rows := take n_train (drop n_test (rows df))\<rparr>,
                      df\<lparr>rows := take n_test (rows df)\<rparr>)))"

definition container :: "table_reader \<Rightarrow> csv filesystem library" where
  "container read_table =
     \<lparr>env_read_csv = fs_read_csv read_table, env_train_test_split = split_unshuffled,
      env_makedirs = fs_makedirs, env_to_csv = fs_to_csv\<rparr>"

section \<open>Workflow 1: staging the dataset\<close>

text \<open>
  After the download of \<open>census-income.csv\<close>:
  \<^verbatim>\<open>df = pd.read_csv("census-income.csv")
  df.to_csv("dataset.csv")\<close>
\<close>

definition stage_dataset :: "table_reader \<Rightarrow> csv filesystem \<Rightarrow> csv filesystem \<times> exn option" where
  "stage_dataset read_table fs =
     (case fs_read_csv read_table ''census-income.csv'' fs of
        Inl e \<Rightarrow> (fs, Some e)
      | Inr df \<Rightarrow> fs_to_csv df ''dataset.csv'' fs)"

text \<open>A frame holds the fields of a table as they stand: the first line as labels, the
  other lines as rows numbered from 0.\<close>

definition frame_of_fields :: "string list \<Rightarrow> string list list \<Rightarrow> dataframe" where
  "frame_of_fields header body = \<lparr>columns = header, rows = zip [0..<length body] body\<rparr>"

subsection \<open>An example container\<close>

text \<open>
  Two small tables of whole numbers and plain words, and the frames pandas reads from
  them: the labels as they stand, the rows numbered from 0, every value printing as its
  field was written. The reader of the examples knows these two tables; no other table
  occurs in an example, and the reader refuses it.
\<close>

definition example_csv :: csv where
  "example_csv =
     [[''age'', ''class''],
      [''39'', ''low''], [''50'', ''low''], [''38'', ''high''], [''53'', ''low''], [''28'', ''high'']]"

definition example_df :: dataframe where
  "example_df =
     \<lparr>columns = [''age'', ''class''],
      rows = [(0, [''39'', ''low'']), (1, [''50'', ''low'']), (2, [''38'', ''high'']),
              (3, [''53'', ''low'']), (4, [''28'', ''high''])]\<rparr>"

definition one_row_csv :: csv where
  "one_row_csv = [[''age''], [''39'']]"

definition one_row_df :: dataframe where
  "one_row_df = \<lparr>columns = [''age''], rows = [(0, [''39''])]\<rparr>"

definition read_examples :: table_reader where
  "read_examples content =
     (if content = example_csv then Inr example_df
      else if content = one_row_csv then Inr one_row_df
      else Inl (Exn ''ParserError'' ''not a table of the examples''))"

definition example_container :: "csv filesystem library" where
  "example_container = container read_examples"

text \<open>A dataset of five rows at the input path, and the directory for the train
  output already there, the other two output directories not.\<close>

definition example_files :: "csv filesystem" where
  "example_files =
     map_of [(''/opt/ml/processing/input'', Dir),
             (''/opt/ml/processing/input/dataset.csv'', File example_csv),
             (''/opt/ml/processing/output'', Dir),
             (''/opt/ml/processing/output/train'', Dir)]"

definition example_start :: "csv filesystem run_state" where
  "example_start = \<lparr>world = example_files, stdout = [], calls = []\<rparr>"

definition no_files_start :: "csv filesystem run_state" where
  "no_files_start = \<lparr>world = Map.empty, stdout = [], calls = []\<rparr>"

text \<open>The parts of the example frame under the unshuffled split.\<close>

definition example_parts :: "dataframe \<times> dataframe \<times> dataframe" where
  "example_parts =
     (\<lparr>columns = [''age'', ''class''],
       rows = [(2, [''38'', ''high'']), (3, [''53'', ''low'']), (4, [''28'', ''high''])]\<rparr>,
      \<lparr>columns = [''age'', ''class''], rows = [(1, [''50'', ''low''])]\<rparr>,
      \<lparr>columns = [''age'', ''class''], rows = [(0, [''39'', ''low''])]\<rparr>)"

text \<open>A dataset of one row: the first split has no row left for the train part.\<close>

definition one_row_start :: "csv filesystem run_state" where
  "one_row_start =
     \<lparr>world = map_of [(''/opt/ml/processing/input/dataset.csv'', File one_row_csv)],
      stdout = [], calls = []\<rparr>"


section \<open>Proofs: job-name extraction\<close>

subsection \<open>Facts about splitting\<close>

lemma py_split_nonempty: "py_split sep s \<noteq> []"
  by (induction s) (auto split: list.splits)

lemma py_split_no_sep: "sep \<notin> set s \<Longrightarrow> py_split sep s = [s]"
  by (induction s) auto

lemma py_split_append:
  "sep \<notin> set a \<Longrightarrow> py_split sep (a @ sep # b) = a # py_split sep b"
  by (induction a) auto

lemma py_split_has_sep: "sep \<in> set s \<Longrightarrow> tl (py_split sep s) \<noteq> []"
  by (induction s) (auto simp: py_split_nonempty split: list.splits)

lemma last_py_split: "last (py_split sep s) = rev (takeWhile (\<lambda>c. c \<noteq> sep) (rev s))"
proof (induction s)
  case Nil
  show ?case by simp
next
  case (Cons c cs)
  show ?case
  proof (cases "sep \<in> set cs")
    case True
    then have tw: "takeWhile (\<lambda>c. c \<noteq> sep) (rev cs @ [c]) = takeWhile (\<lambda>c. c \<noteq> sep) (rev cs)"
      by (simp add: takeWhile_append1)
    from py_split_has_sep [OF True] obtain w v ws where sp: "py_split sep cs = w # v # ws"
      by (cases "py_split sep cs"; cases "tl (py_split sep cs)") auto
    from Cons tw sp show ?thesis
      by auto
  next
    case False
    then have "py_split sep cs = [cs]" by (rule py_split_no_sep)
    moreover from False have "takeWhile (\<lambda>c. c \<noteq> sep) (rev cs @ [c]) =
        rev cs @ takeWhile (\<lambda>c. c \<noteq> sep) [c]"
      by (intro takeWhile_append2) auto
    ultimately show ?thesis by simp
  qed
qed

lemma py_getitem_last: "xs \<noteq> [] \<Longrightarrow> py_getitem xs (- 1) = Inr (last xs)"
  by (cases xs rule: rev_cases) (auto simp: py_getitem_def Let_def nth_append)

lemma py_getitem_1_short: "length xs < 2 \<Longrightarrow> py_getitem xs 1 = Inl IndexError"
  by (auto simp: py_getitem_def Let_def)

lemma py_getitem_1: "py_getitem (a # b # xs) 1 = Inr b"
  by (simp add: py_getitem_def Let_def)

lemma last_token_line: "py_getitem (py_split space line) (- 1) = Inr (last_token line)"
  by (simp add: py_getitem_last py_split_nonempty last_py_split last_token_def)

lemma job_name_one_line:
  "newline \<notin> set output \<Longrightarrow> job_name output = Inl IndexError"
  by (simp add: job_name_def py_split_no_sep py_getitem_1_short)

lemma second_line_split:
  assumes "newline \<notin> set l1" "newline \<notin> set l2"
  shows "py_getitem (py_split newline (l1 @ newline # l2)) 1 = Inr l2"
    and "py_getitem (py_split newline (l1 @ newline # l2 @ newline # rest)) 1 = Inr l2"
proof -
  show "py_getitem (py_split newline (l1 @ newline # l2)) 1 = Inr l2"
    using assms by (simp add: py_split_append py_split_no_sep py_getitem_1)
  have "py_split newline (l2 @ newline # rest) = l2 # py_split newline rest"
    using assms(2) by (rule py_split_append)
  then show "py_getitem (py_split newline (l1 @ newline # l2 @ newline # rest)) 1 = Inr l2"
    using assms(1) by (simp add: py_split_append py_getitem_1)
qed

lemma job_name_two_lines:
  assumes "newline \<notin> set l1" "newline \<notin> set l2"
  shows "job_name (l1 @ newline # l2) = Inr (last_token l2)"
    and "job_name (l1 @ newline # l2 @ newline # rest) = Inr (last_token l2)"
  using second_line_split [OF assms] by (simp_all add: job_name_def last_token_line)

lemma last_token_no_space: "space \<notin> set line \<Longrightarrow> last_token line = line"
proof -
  assume "space \<notin> set line"
  then have "takeWhile (\<lambda>c. c \<noteq> space) (rev line) = rev line"
    by (intro takeWhile_eq_all_conv [THEN iffD2]) auto
  then show ?thesis unfolding last_token_def by (simp only: rev_rev_ident)
qed

lemma job_name_with_newline:
  assumes "newline \<in> set output"
  shows "\<exists>s. job_name output = Inr s"
proof -
  from py_split_has_sep [OF assms] obtain a b rest where
    "py_split newline output = a # b # rest"
    by (cases "py_split newline output"; cases "tl (py_split newline output)") auto
  then have "job_name output = Inr (last_token b)"
    by (simp add: job_name_def py_getitem_1 last_token_line)
  then show ?thesis by blast
qed

lemma job_name_trailing_newline:
  "newline \<notin> set l \<Longrightarrow> job_name (l @ [newline]) = Inr []"
proof -
  assume l: "newline \<notin> set l"
  have "newline \<notin> set ([]::string)" by simp
  from job_name_two_lines(1) [OF l this] show ?thesis
    by (simp add: last_token_def)
qed

subsection \<open>Claims about job-name extraction\<close>

text \<open>
  C3 (as the code has it). Extraction splits the captured text at its newline
  characters, takes the second piece, splits it on spaces and returns the last piece; on
  \<open>INFO Job name: my-job-123\<close> that is \<open>my-job-123\<close>. Nothing is validated. It raises
  exactly when the text has no newline character at all: the index \<open>[1]\<close> then raises
  Python's own IndexError, "list index out of range", which does not name malformed
  output. A text with a newline always returns a string: a single line that ends with
  its newline has an empty second piece, and the empty string is returned silently.
\<close>

theorem job_name_extraction:
  "(newline \<notin> set output \<longrightarrow>
      job_name output = Inl IndexError \<and> \<not> malformed_output_error IndexError) \<and>
   (newline \<in> set output \<longrightarrow> (\<exists>s. job_name output = Inr s)) \<and>
   (newline \<notin> set l1 \<longrightarrow> job_name (l1 @ [newline]) = Inr []) \<and>
   (newline \<notin> set l1 \<and> newline \<notin> set l2 \<longrightarrow>
      job_name (l1 @ newline # l2) = Inr (last_token l2) \<and>
      job_name (l1 @ newline # l2 @ newline # rest) = Inr (last_token l2)) \<and>
   last_token ''INFO Job name: my-job-123'' = ''my-job-123''"
proof (intro conjI impI)
  show "\<not> malformed_output_error IndexError"
    by (simp add: malformed_output_error_def IndexError_def sublist_code)
  show "last_token ''INFO Job name: my-job-123'' = ''my-job-123''"
    by (simp add: last_token_def space_def)
  show "\<exists>s. job_name output = Inr s" if "newline \<in> set output"
    using that by (rule job_name_with_newline)
  show "job_name (l1 @ [newline]) = Inr []" if "newline \<notin> set l1"
    using that by (rule job_name_trailing_newline)
qed (simp_all add: job_name_one_line job_name_two_lines)

theorem job_name_extraction_witness:
  "newline \<notin> set ''Processing started'' \<and>
   job_name ''Processing started'' = Inl IndexError \<and>
   newline \<in> set (''Processing started'' @ [newline]) \<and>
   job_name (''Processing started'' @ [newline]) = Inr [] \<and>
   newline \<notin> set ''INFO Creating job'' \<and> newline \<notin> set ''INFO Job name: my-job-123'' \<and>
   job_name (''INFO Creating job'' @ newline # ''INFO Job name: my-job-123'') = Inr ''my-job-123'' \<and>
   job_name (''INFO Creating job'' @ newline # ''INFO Job name: my-job-123'' @ newline # ''....'')
     = Inr ''my-job-123''"
  using job_name_extraction [of "''Processing started''" "''INFO Creating job''"
      "''INFO Job name: my-job-123''" "''....''"]
    job_name_extraction [of _ "''Processing started''"]
  by (simp add: newline_def)

text \<open>
  C3 as the specification states it fails on texts with fewer than two lines. Without
  a newline the error raised is IndexError, whose class and message say nothing about
  malformed output; and a single line that ends with a newline raises nothing at all:
  the empty string is returned as the job name.
\<close>

theorem job_name_malformed_counterexample:
  "job_name ''Processing started'' = Inl (Exn ''IndexError'' ''list index out of range'') \<and>
   \<not> malformed_output_error (Exn ''IndexError'' ''list index out of range'') \<and>
   job_name (''Processing started'' @ [newline]) = Inr []"
  by (simp add: job_name_def py_getitem_def newline_def IndexError_def
      malformed_output_error_def sublist_code)

text \<open>
  C10. Whenever the captured text has at least two lines, extraction returns a string
  and raises nothing; a second line without a space is returned whole, and an empty
  second line gives the empty string. Nothing checks the shape of what is returned.
\<close>

theorem job_name_unvalidated:
  "newline \<notin> set l1 \<and> newline \<notin> set l2 \<and>
   (output = l1 @ newline # l2 \<or> output = l1 @ newline # l2 @ newline # rest) \<longrightarrow>
     (\<exists>s. job_name output = Inr s) \<and>
     (space \<notin> set l2 \<longrightarrow> job_name output = Inr l2) \<and>
     (l2 = [] \<longrightarrow> job_name output = Inr [])"
proof (intro impI, elim conjE)
  assume l1: "newline \<notin> set l1" and l2: "newline \<notin> set l2"
    and out: "output = l1 @ newline # l2 \<or> output = l1 @ newline # l2 @ newline # rest"
  from out job_name_two_lines(1) [OF l1 l2] job_name_two_lines(2) [OF l1 l2, of rest]
  have r: "job_name output = Inr (last_token l2)" by auto
  have "last_token [] = []" by (simp add: last_token_def)
  with r show "(\<exists>s. job_name output = Inr s) \<and>
     (space \<notin> set l2 \<longrightarrow> job_name output = Inr l2) \<and>
     (l2 = [] \<longrightarrow> job_name output = Inr [])"
    by (auto simp: last_token_no_space)
qed

theorem job_name_unvalidated_witness:
  "job_name (''INFO Creating job'' @ newline # ''garbage'') = Inr ''garbage'' \<and>
   job_name (''INFO Creating job'' @ newline # [] @ newline # ''INFO Job name: j'') = Inr []"
  using job_name_unvalidated [of "''INFO Creating job''" "''garbage''" _ "[]"]
    job_name_unvalidated [of "''INFO Creating job''" "[]" _ "''INFO Job name: j''"]
  by (simp add: newline_def space_def)

section \<open>Proofs: output bindings and verification\<close>

lemma str_nat_digit: "n < 10 \<Longrightarrow> str_nat n = [''0123456789'' ! n]"
  by (subst str_nat.simps) simp

lemma str_nat_digits:
  "str_nat 0 = ''0''" "str_nat 1 = ''1''" "str_nat 2 = ''2''" "str_nat 3 = ''3''"
  "str_nat (Suc 0) = ''1''" "str_nat (Suc (Suc 0)) = ''2''" "str_nat (Suc (Suc (Suc 0))) = ''3''"
  by (simp_all add: str_nat_digit)

lemma py_range_1_4: "py_range 1 4 = [1, 2, 3]" "py_range (Suc 0) 4 = [1, 2, 3]"
  by (simp_all add: py_range_def upt_rec)

lemma platform_output_names_run:
  "platform_output_names run_outputs = [''output-1'', ''output-2'', ''output-3'']"
  by (simp add: platform_output_names_def run_outputs_def upt_rec str_nat_digits)

lemma verify_loop_step:
  "list_objects default_bucket (listing_prefix job i) = Inr response \<Longrightarrow>
   Contents response = Some (obj # objs) \<Longrightarrow>
   verify_loop list_objects default_bucket job (i # rest) out =
     verify_loop list_objects default_bucket job rest
       (out @ [''s3://'' @ default_bucket @ ''/'' @ Key obj])"
  by (simp add: py_getitem_def)

lemma verify_loop_raise:
  "list_objects default_bucket (listing_prefix job i) = Inl e \<Longrightarrow>
   verify_loop list_objects default_bucket job (i # rest) out = (out, Some e)"
  by simp

lemma listing_prefixes_123:
  "listing_prefix job 1 = job @ ''/output/output-1/''"
  "listing_prefix job (Suc 0) = job @ ''/output/output-1/''"
  "listing_prefix job 2 = job @ ''/output/output-2/''"
  "listing_prefix job 3 = job @ ''/output/output-3/''"
  by (simp_all add: listing_prefix_def str_nat_digits)

lemma platform_output_prefixes_run:
  "platform_output_prefixes job run_outputs =
     [(train_dir, job @ ''/output/output-1/''),
      (validation_dir, job @ ''/output/output-2/''),
      (test_dir, job @ ''/output/output-3/'')]"
  unfolding platform_output_prefixes_def platform_output_names_run
  by (simp add: run_outputs_def ProcessingOutput_def)

text \<open>
  C8. The submission declares exactly three output bindings, for the container paths of
  train, validation and test in that order; the platform's names by position,
  \<open>output-1\<close>, \<open>output-2\<close>, \<open>output-3\<close>, therefore belong to train, validation and
  test. The verification step reads them back in that order: it lists the prefix of
  train first, and an exception there ends it with nothing printed; then that of
  validation, then that of test; and when each listing has an object it prints three
  lines, the first object under the prefix of train, of validation and of test, in that
  order.
\<close>

theorem output_binding_order:
  "map source run_outputs =
     [''/opt/ml/processing/output/train'', ''/opt/ml/processing/output/validation'',
      ''/opt/ml/processing/output/test''] \<and>
   platform_output_prefixes job run_outputs =
     [(''/opt/ml/processing/output/train'', job @ ''/output/output-1/''),
      (''/opt/ml/processing/output/validation'', job @ ''/output/output-2/''),
      (''/opt/ml/processing/output/test'', job @ ''/output/output-3/'')] \<and>
   map (listing_prefix job) (py_range 1 4) = map snd (platform_output_prefixes job run_outputs) \<and>
   (list_objects default_bucket (snd (platform_output_prefixes job run_outputs ! 0)) = Inl e \<longrightarrow>
      verify_outputs list_objects default_bucket job = ([], Some e)) \<and>
   (list_objects default_bucket (snd (platform_output_prefixes job run_outputs ! 0)) =
      Inr \<lparr>Contents = Some (train_obj # train_objs)\<rparr> \<and>
    list_objects default_bucket (snd (platform_output_prefixes job run_outputs ! 1)) = Inl e \<longrightarrow>
      verify_outputs list_objects default_bucket job =
        ([''s3://'' @ default_bucket @ ''/'' @ Key train_obj], Some e)) \<and>
   (list_objects default_bucket (snd (platform_output_prefixes job run_outputs ! 0)) =
      Inr \<lparr>Contents = Some (train_obj # train_objs)\<rparr> \<and>
    list_objects default_bucket (snd (platform_output_prefixes job run_outputs ! 1)) =
      Inr \<lparr>Contents = Some (validation_obj # validation_objs)\<rparr> \<and>
    list_objects default_bucket (snd (platform_output_prefixes job run_outputs ! 2)) = Inl e \<longrightarrow>
      verify_outputs list_objects default_bucket job =
        ([''s3://'' @ default_bucket @ ''/'' @ Key train_obj,
          ''s3://'' @ default_bucket @ ''/'' @ Key validation_obj], Some e)) \<and>
   (list_objects default_bucket (snd (platform_output_prefixes job run_outputs ! 0)) =
      Inr \<lparr>Contents = Some (train_obj # train_objs)\<rparr> \<and>
    list_objects default_bucket (snd (platform_output_prefixes job run_outputs ! 1)) =
      Inr \<lparr>Contents = Some (validation_obj # validation_objs)\<rparr> \<and>
    list_objects default_bucket (snd (platform_output_prefixes job run_outputs ! 2)) =
      Inr \<lparr>Contents = Some (test_obj # test_objs)\<rparr> \<longrightarrow>
      verify_outputs list_objects default_bucket job =
        ([''s3://'' @ default_bucket @ ''/'' @ Key train_obj,
          ''s3://'' @ default_bucket @ ''/'' @ Key validation_obj,
          ''s3://'' @ default_bucket @ ''/'' @ Key test_obj], None))"
proof -
  have src: "map source run_outputs = [train_dir, validation_dir, test_dir]"
    by (simp add: run_outputs_def ProcessingOutput_def)
  have nth: "snd (platform_output_prefixes job run_outputs ! 0) = listing_prefix job 1"
    "snd (platform_output_prefixes job run_outputs ! 1) = listing_prefix job 2"
    "snd (platform_output_prefixes job run_outputs ! 2) = listing_prefix job 3"
    by (simp_all add: platform_output_prefixes_run listing_prefixes_123)
  have lits: "map source run_outputs =
     [''/opt/ml/processing/output/train'', ''/opt/ml/processing/output/validation'',
      ''/opt/ml/processing/output/test'']"
    "platform_output_prefixes job run_outputs =
     [(''/opt/ml/processing/output/train'', job @ ''/output/output-1/''),
      (''/opt/ml/processing/output/validation'', job @ ''/output/output-2/''),
      (''/opt/ml/processing/output/test'', job @ ''/output/output-3/'')]"
    "map (listing_prefix job) (py_range 1 4) = map snd (platform_output_prefixes job run_outputs)"
    unfolding platform_output_prefixes_run src py_range_1_4
    by (simp_all add: train_dir_def validation_dir_def test_dir_def listing_prefixes_123)
  have loop: "verify_outputs list_objects default_bucket job =
      verify_loop list_objects default_bucket job [1, 2, 3] []"
    by (simp add: verify_outputs_def py_range_1_4)
  show ?thesis
    unfolding nth loop
    by (intro conjI impI lits; (elim conjE)?)
      (simp_all add: verify_loop_step [where response = "\<lparr>Contents = Some (x # xs)\<rparr>" for x xs]
        verify_loop_raise verify_loop.simps(1) del: verify_loop.simps(2))
qed

theorem output_binding_order_witness:
  "verify_outputs
     (\<lambda>bucket prefix.
        if prefix = ''job-1/output/output-1/''
        then Inr \<lparr>Contents = Some [\<lparr>Key = ''job-1/output/output-1/train.csv''\<rparr>]\<rparr>
        else if prefix = ''job-1/output/output-2/''
        then Inr \<lparr>Contents = Some [\<lparr>Key = ''job-1/output/output-2/validation.csv''\<rparr>]\<rparr>
        else if prefix = ''job-1/output/output-3/''
        then Inr \<lparr>Contents = Some [\<lparr>Key = ''job-1/output/output-3/test.csv''\<rparr>]\<rparr>
        else Inl (Exn ''ClientError'' ''AccessDenied''))
     ''bucket'' ''job-1'' =
   ([''s3://bucket/job-1/output/output-1/train.csv'',
     ''s3://bucket/job-1/output/output-2/validation.csv'',
     ''s3://bucket/job-1/output/output-3/test.csv''], None)"
  using output_binding_order [of "''job-1''"
      "\<lambda>bucket prefix.
        if prefix = ''job-1/output/output-1/''
        then Inr \<lparr>Contents = Some [\<lparr>Key = ''job-1/output/output-1/train.csv''\<rparr>]\<rparr>
        else if prefix = ''job-1/output/output-2/''
        then Inr \<lparr>Contents = Some [\<lparr>Key = ''job-1/output/output-2/validation.csv''\<rparr>]\<rparr>
        else if prefix = ''job-1/output/output-3/''
        then Inr \<lparr>Contents = Some [\<lparr>Key = ''job-1/output/output-3/test.csv''\<rparr>]\<rparr>
        else Inl (Exn ''ClientError'' ''AccessDenied'')"
      "''bucket''" _ "\<lparr>Key = ''job-1/output/output-1/train.csv''\<rparr>" "[]"
      "\<lparr>Key = ''job-1/output/output-2/validation.csv''\<rparr>" "[]"
      "\<lparr>Key = ''job-1/output/output-3/test.csv''\<rparr>" "[]"]
  by simp

lemma verify_loop_lines:
  "verify_loop list_objects bucket job indices out = (out', r) \<Longrightarrow>
     \<exists>extra. out' = out @ extra \<and> length extra \<le> length indices \<and>
       (\<forall>k<length extra. \<exists>response obj objs.
          list_objects bucket (listing_prefix job (indices ! k)) = Inr response \<and>
          Contents response = Some (obj # objs) \<and>
          extra ! k = ''s3://'' @ bucket @ ''/'' @ Key obj)"
proof (induction indices arbitrary: out)
  case Nil
  then show ?case by simp
next
  case (Cons i rest)
  show ?case
  proof (cases "list_objects bucket (listing_prefix job i)")
    case (Inl e)
    with Cons.prems show ?thesis by simp
  next
    case (Inr response)
    show ?thesis
    proof (cases "Contents response")
      case None
      with Inr Cons.prems show ?thesis by simp
    next
      case (Some objects)
      show ?thesis
      proof (cases objects)
        case Nil
        with Inr Some Cons.prems show ?thesis by (simp add: py_getitem_def)
      next
        case (Cons obj objs)
        let ?line = "''s3://'' @ bucket @ ''/'' @ Key obj"
        from Inr Some Cons Cons.prems
        have "verify_loop list_objects bucket job rest (out @ [?line]) = (out', r)"
          by (simp add: py_getitem_def)
        from Cons.IH [OF this] obtain extra where
          e: "out' = (out @ [?line]) @ extra" "length extra \<le> length rest"
          "\<forall>k<length extra. \<exists>response obj objs.
            list_objects bucket (listing_prefix job (rest ! k)) = Inr response \<and>
            Contents response = Some (obj # objs) \<and>
            extra ! k = ''s3://'' @ bucket @ ''/'' @ Key obj"
          by blast
        have "\<forall>k<length (?line # extra). \<exists>response obj objs.
            list_objects bucket (listing_prefix job ((i # rest) ! k)) = Inr response \<and>
            Contents response = Some (obj # objs) \<and>
            (?line # extra) ! k = ''s3://'' @ bucket @ ''/'' @ Key obj"
        proof (intro allI impI)
          fix k assume "k < length (?line # extra)"
          then show "\<exists>response obj objs.
            list_objects bucket (listing_prefix job ((i # rest) ! k)) = Inr response \<and>
            Contents response = Some (obj # objs) \<and>
            (?line # extra) ! k = ''s3://'' @ bucket @ ''/'' @ Key obj"
            using e(3) Inr Some Cons by (cases k) auto
        qed
        with e(1,2) show ?thesis
          by (intro exI [of _ "?line # extra"]) simp
      qed
    qed
  qed
qed

text \<open>
  C5. For each index \<open>i\<close> of 1..3: when the listing under
  \<open><job_name>/output/output-<i>/\<close> has no object, the verification step ends with an
  exception, and it has printed fewer than \<open>i\<close> lines. Every line it prints is the URI
  of the first object of a listing that has one: the k-th line that of index k. So no
  URI is printed for an index whose listing is empty.
\<close>

theorem verify_outputs_empty_listing:
  "(i \<in> set (py_range 1 4) \<and>
   list_objects default_bucket (listing_prefix job i) = Inr response \<and>
   empty_listing response \<longrightarrow>
     snd (verify_outputs list_objects default_bucket job) \<noteq> None \<and>
     length (fst (verify_outputs list_objects default_bucket job)) < i) \<and>
   (\<forall>k<length (fst (verify_outputs list_objects default_bucket job)).
      \<exists>response obj objs.
        list_objects default_bucket (listing_prefix job (Suc k)) = Inr response \<and>
        Contents response = Some (obj # objs) \<and>
        fst (verify_outputs list_objects default_bucket job) ! k =
          ''s3://'' @ default_bucket @ ''/'' @ Key obj)"
proof (intro conjI)
  show "i \<in> set (py_range 1 4) \<and>
   list_objects default_bucket (listing_prefix job i) = Inr response \<and>
   empty_listing response \<longrightarrow>
     snd (verify_outputs list_objects default_bucket job) \<noteq> None \<and>
     length (fst (verify_outputs list_objects default_bucket job)) < i"
    unfolding verify_outputs_def py_range_1_4
    by (auto simp: empty_listing_def py_getitem_def split: sum.splits option.splits)
  obtain out r where v: "verify_loop list_objects default_bucket job [1, 2, 3] [] = (out, r)"
    by (cases "verify_loop list_objects default_bucket job [1, 2, 3] []") auto
  from verify_loop_lines [OF v] have len: "length out \<le> 3"
    and lines: "\<forall>k<length out. \<exists>response obj objs.
          list_objects default_bucket (listing_prefix job ([1, 2, 3] ! k)) = Inr response \<and>
          Contents response = Some (obj # objs) \<and>
          out ! k = ''s3://'' @ default_bucket @ ''/'' @ Key obj"
    by auto
  have idx: "[1, 2, 3] ! k = Suc k" if "k < length out" for k
  proof -
    from that len have "k = 0 \<or> k = 1 \<or> k = 2" by linarith
    then show ?thesis by auto
  qed
  show "\<forall>k<length (fst (verify_outputs list_objects default_bucket job)).
      \<exists>response obj objs.
        list_objects default_bucket (listing_prefix job (Suc k)) = Inr response \<and>
        Contents response = Some (obj # objs) \<and>
        fst (verify_outputs list_objects default_bucket job) ! k =
          ''s3://'' @ default_bucket @ ''/'' @ Key obj"
    unfolding verify_outputs_def py_range_1_4 v fst_conv
    using lines idx by metis
qed

theorem verify_outputs_empty_listing_witness:
  "verify_outputs
     (\<lambda>bucket prefix.
        if prefix = ''job-1/output/output-1/''
        then Inr \<lparr>Contents = Some [\<lparr>Key = ''job-1/output/output-1/train.csv''\<rparr>]\<rparr>
        else Inr \<lparr>Contents = None\<rparr>)
     ''bucket'' ''job-1'' =
   ([''s3://bucket/job-1/output/output-1/train.csv''], Some (KeyError ''Contents''))"
proof -
  let ?s3 = "\<lambda>(bucket::string) prefix.
        if prefix = ''job-1/output/output-1/''
        then Inr \<lparr>Contents = Some [\<lparr>Key = ''job-1/output/output-1/train.csv''\<rparr>]\<rparr>
        else Inr \<lparr>Contents = None\<rparr>"
  have "snd (verify_outputs ?s3 ''bucket'' ''job-1'') \<noteq> None \<and>
        length (fst (verify_outputs ?s3 ''bucket'' ''job-1'')) < 2"
    using verify_outputs_empty_listing [of 2 ?s3 "''bucket''" "''job-1''" "\<lparr>Contents = None\<rparr>"]
    by (simp add: py_range_1_4 listing_prefix_def str_nat_digits empty_listing_def)
  then show ?thesis
    by (simp add: verify_outputs_def py_range_1_4 listing_prefix_def str_nat_digits
        py_getitem_def)
qed

section \<open>Proofs: the model definition\<close>

text \<open>
  C7 (as the code has it). For every list of metric names and every state of the name
  counter, \<open>iris_mlp\<close> returns a compiled model and raises nothing: input of width 4;
  dense layers of 10, 20 and 10 units, each with "relu" and an L2 kernel regularizer of
  0.001; an output dense layer of 3 units with "softmax" and no regularizer; output of
  width 3; loss "sparse_categorical_crossentropy"; optimizer "adam". The metrics list
  appears in the compiled metrics and nowhere else. The call is not free of side
  effects: the output layer is built without a name, so its name is drawn from the
  process-wide counter, which the call leaves advanced by one; that name is the only
  part of the result that depends on the counter.
\<close>

theorem iris_mlp_architecture:
  "iris_mlp ms uid =
     (Inr \<lparr>inputs = \<lparr>tensor_name = Some ''input'', tensor_shape = [4], history = []\<rparr>,
           layers =
             [\<lparr>units = 10, kernel_regularizer = Some (L2 0.001), activation = Some ''relu'',
                layer_name = ''dense_layer1''\<rparr>,
              \<lparr>units = 20, kernel_regularizer = Some (L2 0.001), activation = Some ''relu'',
                layer_name = ''dense_layer2''\<rparr>,
              \<lparr>units = 10, kernel_regularizer = Some (L2 0.001), activation = Some ''relu'',
                layer_name = ''dense_layer3''\<rparr>,
              \<lparr>units = 3, kernel_regularizer = None, activation = Some ''softmax'',
                layer_name = auto_name uid\<rparr>],
           output_shape = [3],
           optimizer = Some ''adam'',
           loss = Some ''sparse_categorical_crossentropy'',
           metrics = Some ms\<rparr>,
      Suc uid)"
  by (simp add: iris_mlp_def Let_def call_layer_def Input_def Dense_def Model_def compile_def)

text \<open>
  C7 as the specification states it fails: the call has a side effect. In a fresh
  process the first call leaves the name counter at 1, and a second call with the same
  metrics returns a different model, its output layer named \<open>dense_1\<close> where the first
  had \<open>dense\<close>.
\<close>

theorem iris_mlp_side_effect_counterexample:
  "snd (iris_mlp [''accuracy'', ''binary_accuracy''] 0) = 1 \<and>
   map layer_name (layers (projr (fst (iris_mlp [''accuracy'', ''binary_accuracy''] 0)))) =
     [''dense_layer1'', ''dense_layer2'', ''dense_layer3'', ''dense''] \<and>
   map layer_name (layers (projr (fst (iris_mlp [''accuracy'', ''binary_accuracy'']
       (snd (iris_mlp [''accuracy'', ''binary_accuracy''] 0)))))) =
     [''dense_layer1'', ''dense_layer2'', ''dense_layer3'', ''dense_1''] \<and>
   fst (iris_mlp [''accuracy'', ''binary_accuracy''] 0) \<noteq>
     fst (iris_mlp [''accuracy'', ''binary_accuracy'']
       (snd (iris_mlp [''accuracy'', ''binary_accuracy''] 0)))"
  by (simp add: iris_mlp_def Let_def call_layer_def Input_def Dense_def Model_def compile_def
      auto_name_def str_nat_digits)

section \<open>Proofs: local cleanup\<close>

lemma os_remove_file: "is_file fs p \<Longrightarrow> os_remove p fs = (fs(p := None), None)"
  by (auto simp: os_remove_def is_file_def split: option.splits node.splits)

lemma os_remove_missing: "fs p = None \<Longrightarrow> os_remove p fs = (fs, Some (FileNotFoundError p))"
  by (simp add: os_remove_def)

lemma is_file_other: "p \<noteq> q \<Longrightarrow> is_file (fs(q := None)) p = is_file fs p"
  by (simp add: is_file_def)

text \<open>
  C6. When the four files and the directory \<open>export\<close> are there, the cleanup removes
  exactly \<open>model.tar.gz\<close>, \<open>iris_test.csv\<close>, \<open>iris_train.csv\<close>, \<open>iris.data\<close> and
  everything at or below \<open>export\<close>, and nothing else. It has no guard: the first of
  the five targets that is missing raises FileNotFoundError out of the cell, the targets
  before it are gone and the ones after it are left as they were.
\<close>

theorem cleanup_unguarded:
  "(is_file fs ''model.tar.gz'' \<and> is_file fs ''iris_test.csv'' \<and> is_file fs ''iris_train.csv'' \<and>
    is_file fs ''iris.data'' \<and> fs ''export'' = Some Dir \<longrightarrow>
      cleanup fs =
        ((\<lambda>q. if q \<in> {''model.tar.gz'', ''iris_test.csv'', ''iris_train.csv'', ''iris.data''} \<or>
                  below ''export'' q
               then None else fs q), None)) \<and>
   (fs ''model.tar.gz'' = None \<longrightarrow>
      cleanup fs = (fs, Some (FileNotFoundError ''model.tar.gz''))) \<and>
   (is_file fs ''model.tar.gz'' \<and> fs ''iris_test.csv'' = None \<longrightarrow>
      cleanup fs = (fs(''model.tar.gz'' := None), Some (FileNotFoundError ''iris_test.csv''))) \<and>
   (is_file fs ''model.tar.gz'' \<and> is_file fs ''iris_test.csv'' \<and> fs ''iris_train.csv'' = None \<longrightarrow>
      cleanup fs =
        (fs(''model.tar.gz'' := None, ''iris_test.csv'' := None),
         Some (FileNotFoundError ''iris_train.csv''))) \<and>
   (is_file fs ''model.tar.gz'' \<and> is_file fs ''iris_test.csv'' \<and> is_file fs ''iris_train.csv'' \<and>
    fs ''iris.data'' = None \<longrightarrow>
      cleanup fs =
        (fs(''model.tar.gz'' := None, ''iris_test.csv'' := None, ''iris_train.csv'' := None),
         Some (FileNotFoundError ''iris.data''))) \<and>
   (is_file fs ''model.tar.gz'' \<and> is_file fs ''iris_test.csv'' \<and> is_file fs ''iris_train.csv'' \<and>
    is_file fs ''iris.data'' \<and> fs ''export'' = None \<longrightarrow>
      cleanup fs =
        (fs(''model.tar.gz'' := None, ''iris_test.csv'' := None, ''iris_train.csv'' := None,
            ''iris.data'' := None),
         Some (FileNotFoundError ''export'')))"
proof (intro conjI impI; (elim conjE)?)
  assume "is_file fs ''model.tar.gz''" "is_file fs ''iris_test.csv''"
    "is_file fs ''iris_train.csv''" "is_file fs ''iris.data''" "fs ''export'' = Some Dir"
  then show "cleanup fs =
        ((\<lambda>q. if q \<in> {''model.tar.gz'', ''iris_test.csv'', ''iris_train.csv'', ''iris.data''} \<or>
                  below ''export'' q
               then None else fs q), None)"
    by (auto simp: cleanup_def then_do_def os_remove_file is_file_other shutil_rmtree_def
        fun_eq_iff below_def)
qed (simp_all add: cleanup_def then_do_def os_remove_file os_remove_missing is_file_other
    shutil_rmtree_def)

theorem cleanup_unguarded_witness:
  "cleanup (map_of [(''model.tar.gz'', File ()), (''iris_test.csv'', File ()),
                    (''iris_train.csv'', File ()), (''export'', Dir),
                    (''export/Servo'', Dir)]) =
     (map_of [(''export'', Dir), (''export/Servo'', Dir)],
      Some (FileNotFoundError ''iris.data'')) \<and>
   snd (cleanup (map_of [(''model.tar.gz'', File ()), (''iris_test.csv'', File ()),
                    (''iris_train.csv'', File ()), (''iris.data'', File ()), (''export'', Dir),
                    (''export/Servo'', Dir), (''notes.txt'', File ())])) = None \<and>
   fst (cleanup (map_of [(''model.tar.gz'', File ()), (''iris_test.csv'', File ()),
                    (''iris_train.csv'', File ()), (''iris.data'', File ()), (''export'', Dir),
                    (''export/Servo'', Dir), (''notes.txt'', File ())])) ''export/Servo'' = None \<and>
   fst (cleanup (map_of [(''model.tar.gz'', File ()), (''iris_test.csv'', File ()),
                    (''iris_train.csv'', File ()), (''iris.data'', File ()), (''export'', Dir),
                    (''export/Servo'', Dir), (''notes.txt'', File ())])) ''notes.txt'' = Some (File ())"
  using
    cleanup_unguarded [of "map_of [(''model.tar.gz'', File ()), (''iris_test.csv'', File ()),
                    (''iris_train.csv'', File ()), (''export'', Dir),
                    (''export/Servo'', Dir)]"]
    cleanup_unguarded [of "map_of [(''model.tar.gz'', File ()), (''iris_test.csv'', File ()),
                    (''iris_train.csv'', File ()), (''iris.data'', File ()), (''export'', Dir),
                    (''export/Servo'', Dir), (''notes.txt'', File ())]"]
  by (simp add: is_file_def below_def fun_eq_iff)


section \<open>Proofs: the two successive splits\<close>

lemma n_test_fifth: "n_test_of 0.2 n = (n + 4) div 5"
proof -
  have "\<lceil>0.2 * real n\<rceil> = int ((n + 4) div 5)"
  proof (rule ceiling_unique)
    have "5 * ((n + 4) div 5) \<le> n + 4" by simp
    then have "5 * real ((n + 4) div 5) \<le> real n + 4"
      by (metis of_nat_le_iff of_nat_mult of_nat_add of_nat_numeral)
    then show "of_int (int ((n + 4) div 5)) - 1 < 0.2 * real n" by simp
    have "n \<le> 5 * ((n + 4) div 5)" by linarith
    then have "real n \<le> 5 * real ((n + 4) div 5)"
      by (metis of_nat_le_iff of_nat_mult of_nat_numeral)
    then show "0.2 * real n \<le> of_int (int ((n + 4) div 5))" by simp
  qed
  then show ?thesis by (simp add: n_test_of_def)
qed

lemma n_test_tight: "5 * real (n_test_of 0.2 n) \<le> real n + 4" "real n \<le> 5 * real (n_test_of 0.2 n)"
proof -
  have a: "5 * ((n + 4) div 5) \<le> n + 4" by simp
  have b: "n \<le> 5 * ((n + 4) div 5)" by linarith
  from a have "real (5 * ((n + 4) div 5)) \<le> real (n + 4)" by (simp only: of_nat_le_iff)
  then show "5 * real (n_test_of 0.2 n) \<le> real n + 4" unfolding n_test_fifth by simp
  from b have "real n \<le> real (5 * ((n + 4) div 5))" by (simp only: of_nat_le_iff)
  then show "real n \<le> 5 * real (n_test_of 0.2 n)" unfolding n_test_fifth by simp
qed

lemma n_test_less: "2 \<le> n \<Longrightarrow> n_test_of 0.2 n < n"
proof -
  assume "2 \<le> n"
  then have "0.2 * real n + 1 \<le> real n" by simp
  with n_test_tight(1) [of n] have "real (n_test_of 0.2 n) < real n" by linarith
  then show ?thesis by simp
qed

lemma parts_of_distinct:
  assumes "distinct (map f zs)" "mset xs + mset ys = mset zs"
  shows "set (map f xs) \<inter> set (map f ys) = {}" "set (map f xs) \<union> set (map f ys) = set (map f zs)"
    "distinct (map f xs)" "length xs + length ys = length zs"
proof -
  have m: "mset (map f (xs @ ys)) = mset (map f zs)"
    using assms(2) by (metis mset_append mset_map)
  then have d: "distinct (map f (xs @ ys))"
    using assms(1) by (metis mset_eq_imp_distinct_iff)
  from d show "set (map f xs) \<inter> set (map f ys) = {}" "distinct (map f xs)" by auto
  from m have "set (map f (xs @ ys)) = set (map f zs)" by (rule mset_eq_setD)
  then show "set (map f xs) \<union> set (map f ys) = set (map f zs)" by simp
  from assms(2) have "size (mset xs + mset ys) = size (mset zs)" by simp
  then show "length xs + length ys = length zs" by simp
qed

text \<open>
  C4. Let \<open>train_test_split\<close> meet its contract at test size 0.2 and let the input
  have N \<ge> 10 rows with distinct index labels. Then the two successive splits return, and the three
  partitions are pairwise disjoint by row index, together cover exactly the input's
  index, and have sizes within rounding of the nominal fractions: the test part within
  one row of 0.2 N, the validation part within one row of 0.16 N, and the train part,
  which is rounded twice, within one and a half rows of 0.64 N.
\<close>

theorem three_way_split_partitions:
  assumes c: "split_contract lib" and d: "distinct (map fst (rows df))" and n: "10 \<le> length (rows df)"
  shows "\<exists>train validation test.
     three_way_split lib df w = Inr (train, validation, test) \<and>
     index train \<inter> index validation = {} \<and> index train \<inter> index test = {} \<and>
     index validation \<inter> index test = {} \<and>
     index train \<union> index validation \<union> index test = index df \<and>
     length (rows train) + length (rows validation) + length (rows test) = length (rows df) \<and>
     \<bar>real (length (rows test)) - 0.2 * real (length (rows df))\<bar> < 1 \<and>
     \<bar>real (length (rows validation)) - 0.16 * real (length (rows df))\<bar> < 1 \<and>
     \<bar>real (length (rows train)) - 0.64 * real (length (rows df))\<bar> < 1.5"
proof -
  let ?N = "length (rows df)"
  from n have "n_test_of 0.2 ?N < ?N" by (intro n_test_less) simp
  with c obtain pool test where
    s1: "env_train_test_split lib df 0.2 w = Inr (pool, test)"
    and m1: "mset (rows pool) + mset (rows test) = mset (rows df)"
    and l1: "length (rows test) = n_test_of 0.2 ?N"
    unfolding split_contract_def by blast
  note p1 = parts_of_distinct [OF d m1]
  let ?P = "length (rows pool)"
  have tb: "real ?N \<le> 5 * real (length (rows test))" "5 * real (length (rows test)) \<le> real ?N + 4"
    using n_test_tight [of ?N] l1 by simp_all
  have PN: "real ?P = real ?N - real (length (rows test))"
    using p1(4) by linarith
  have "2 \<le> ?P" using PN tb n by linarith
  then have "n_test_of 0.2 ?P < ?P" by (rule n_test_less)
  with c obtain train validation where
    s2: "env_train_test_split lib pool 0.2 w = Inr (train, validation)"
    and m2: "mset (rows train) + mset (rows validation) = mset (rows pool)"
    and l2: "length (rows validation) = n_test_of 0.2 ?P"
    unfolding split_contract_def by blast
  note p2 = parts_of_distinct [OF p1(3) m2]
  have vb: "real ?P \<le> 5 * real (length (rows validation))"
      "5 * real (length (rows validation)) \<le> real ?P + 4"
    using n_test_tight [of ?P] l2 by simp_all
  have TN: "real (length (rows train)) = real ?P - real (length (rows validation))"
    using p2(4) by linarith
  have r: "three_way_split lib df w = Inr (train, validation, test)"
    using s1 s2 by (simp add: three_way_split_def)
  have i1: "index train \<inter> index validation = {}"
    using p2(1) by (simp add: index_def)
  have sub: "index train \<union> index validation = index pool"
    using p2(2) by (simp add: index_def)
  have i2: "index pool \<inter> index test = {}" and un: "index pool \<union> index test = index df"
    using p1(1,2) by (simp_all add: index_def)
  have i3: "index train \<inter> index test = {}" "index validation \<inter> index test = {}"
    using sub i2 by blast+
  have u: "index train \<union> index validation \<union> index test = index df"
    using sub un by simp
  have sz: "length (rows train) + length (rows validation) + length (rows test) = ?N"
    using p1(4) p2(4) by simp
  have b1: "\<bar>real (length (rows test)) - 0.2 * real ?N\<bar> < 1" using tb by linarith
  have "\<bar>real (length (rows validation)) - 4 / 25 * real ?N\<bar> < 1"
    using tb vb PN by linarith
  then have b2: "\<bar>real (length (rows validation)) - 0.16 * real ?N\<bar> < 1" by simp
  have "\<bar>real (length (rows train)) - 16 / 25 * real ?N\<bar> < 3 / 2"
    using tb vb PN TN by linarith
  then have b3: "\<bar>real (length (rows train)) - 0.64 * real ?N\<bar> < 1.5" by simp
  from r i1 i3 u sz b1 b2 b3 show ?thesis by blast
qed

lemma mset_drop_take: "mset (drop k xs) + mset (take k xs) = mset xs"
  by (metis add.commute append_take_drop_id mset_append)

lemma container_split_contract: "split_contract example_container"
  unfolding split_contract_def example_container_def container_def
  by (auto simp: split_unshuffled_def Let_def mset_drop_take)

theorem three_way_split_partitions_witness:
  "distinct (map fst [(0::nat, [''a'']), (1, [''b'']), (2, [''c'']), (3, [''d'']), (4, [''e'']),
      (5, [''f'']), (6, [''g'']), (7, [''h'']), (8, [''i'']), (9, [''j''])]) \<and>
   three_way_split example_container
     \<lparr>columns = [''x''],
      rows = [(0, [''a'']), (1, [''b'']), (2, [''c'']), (3, [''d'']), (4, [''e'']),
              (5, [''f'']), (6, [''g'']), (7, [''h'']), (8, [''i'']), (9, [''j''])]\<rparr>
     Map.empty =
   Inr (\<lparr>columns = [''x''],
         rows = [(4, [''e'']), (5, [''f'']), (6, [''g'']), (7, [''h'']), (8, [''i'']),
                 (9, [''j''])]\<rparr>,
        \<lparr>columns = [''x''], rows = [(2, [''c'']), (3, [''d''])]\<rparr>,
        \<lparr>columns = [''x''], rows = [(0, [''a'']), (1, [''b''])]\<rparr>)"
  using three_way_split_partitions [OF container_split_contract,
      of "\<lparr>columns = [''x''],
      rows = [(0, [''a'']), (1, [''b'']), (2, [''c'']), (3, [''d'']), (4, [''e'']),
              (5, [''f'']), (6, [''g'']), (7, [''h'']), (8, [''i'']), (9, [''j''])]\<rparr>" Map.empty]
  by (simp add: three_way_split_def example_container_def container_def split_unshuffled_def
      n_test_of_def)

section \<open>Proofs: the partitioning script\<close>

lemma py_print_simps [simp]:
  "py_print l s = (s\<lparr>stdout := stdout s @ [l]\<rparr>, None)"
  by (simp add: py_print_def)

lemma try_except_never_raises:
  "(\<And>e s'. snd (handler e s') = None) \<Longrightarrow> snd (try_except body handler s) = None"
  by (auto simp: try_except_def split: prod.splits option.splits)

lemma make_directories_no_exception: "snd (make_directories lib s) = None"
  unfolding make_directories_def
  by (rule try_except_never_raises) (simp add: then_do_def)

lemma write_files_no_exception: "snd (write_files lib train validation test s) = None"
  unfolding write_files_def
  by (rule try_except_never_raises) (simp add: then_do_def)

lemma then_do_ok: "snd (f s) = None \<Longrightarrow> then_do f g s = g (fst (f s))"
  by (cases "f s") (simp add: then_do_def)

lemma make_directories_result:
  "stdout (fst (make_directories lib s)) =
     stdout s @ directory_lines (snd (in_sequence (makedirs_calls lib) (world s)))"
  "world (fst (make_directories lib s)) = fst (in_sequence (makedirs_calls lib) (world s))"
  by (auto simp: make_directories_def makedirs_calls_def try_except_def then_do_def
      call_makedirs_def directory_lines_def split: prod.splits option.splits)

lemma write_files_result:
  "stdout (fst (write_files lib train validation test s)) =
     stdout s @
     file_lines (snd (in_sequence (to_csv_calls lib train validation test) (world s)))"
  by (auto simp: write_files_def to_csv_calls_def try_except_def then_do_def
      call_to_csv_def file_lines_def split: prod.splits option.splits)

lemma example_run:
  "env_read_csv example_container input_data_path (world example_start) = Inr example_df"
  "three_way_split example_container example_df (world example_start) = Inr example_parts"
  "snd (preprocessing example_container example_start) = None"
  "stdout (fst (preprocessing example_container example_start)) =
     [''Shape of data is: (5, 2)'',
      ''[Errno 17] File exists: '' @ quoted train_dir,
      ''Could not make directories'',
      ''Failed to write the files'',
      ''[Errno 2] No such file or directory: '' @ quoted validation_csv,
      ''Completed running the processing job'']"
  "calls (fst (preprocessing example_container example_start)) =
     [ReadCsv ''/opt/ml/processing/input/dataset.csv'',
      Makedirs train_dir, ToCsv train_csv, ToCsv validation_csv]"
  "world (fst (preprocessing example_container example_start)) train_csv =
     Some (File [['''', ''age'', ''class''], [''2'', ''38'', ''high''], [''3'', ''53'', ''low''],
                 [''4'', ''28'', ''high'']])"
  "world (fst (preprocessing example_container example_start)) validation_csv = None"
  "world (fst (preprocessing example_container example_start)) test_csv = None"
  by code_simp+

lemma no_files_run:
  "env_read_csv example_container input_data_path (world no_files_start) =
     Inl (FileNotFoundError ''/opt/ml/processing/input/dataset.csv'')"
  by code_simp

lemma one_row_run:
  "env_read_csv example_container input_data_path (world one_row_start) = Inr one_row_df"
  "three_way_split example_container one_row_df (world one_row_start) =
     Inl (Exn ''ValueError'' ''the resulting train set will be empty'')"
  "str_pair (shape one_row_df) = ''(1, 1)''"
  by code_simp+

lemma example_block_results:
  "snd (in_sequence (makedirs_calls example_container) (world example_start)) =
     Some (FileExistsError train_dir)"
  "snd (in_sequence
         (to_csv_calls example_container (fst example_parts) (fst (snd example_parts))
            (snd (snd example_parts)))
         (fst (in_sequence (makedirs_calls example_container) (world example_start)))) =
     Some (FileNotFoundError validation_csv)"
  by code_simp+

text \<open>
  C1 (as the code has it). Whatever the directory creations and the file writes do, a
  run in which the input is read and the two splits return ends without an exception
  and with the completion marker as the last line printed. What it prints is the shape
  line; for the directory block, the success line or, when a creation raised, that
  exception's text and "Could not make directories"; for the write block, the success
  line or, when a write raised, "Failed to write the files" and that exception's text;
  and the marker. The read and the splits stand outside the \<open>try\<close> blocks: when
  \<open>read_csv\<close> raises, for a missing input file say, the exception leaves the script,
  which has printed nothing, neither a diagnostic nor the marker; when a split raises,
  only the shape line has been printed.
\<close>

theorem preprocessing_marker:
  "(env_read_csv lib input_data_path (world s) = Inr df \<and>
    three_way_split lib df (world s) = Inr (train, validation, test) \<longrightarrow>
      snd (preprocessing lib s) = None \<and>
      last (stdout (fst (preprocessing lib s))) = completion_marker \<and>
      stdout (fst (preprocessing lib s)) =
        stdout s @ [''Shape of data is: '' @ str_pair (shape df)] @
        directory_lines (snd (in_sequence (makedirs_calls lib) (world s))) @
        file_lines (snd (in_sequence (to_csv_calls lib train validation test)
                           (fst (in_sequence (makedirs_calls lib) (world s))))) @
        [completion_marker]) \<and>
   (env_read_csv lib input_data_path (world s) = Inl e \<longrightarrow>
      preprocessing lib s = (s\<lparr>calls := calls s @ [ReadCsv input_data_path]\<rparr>, Some e)) \<and>
   (env_read_csv lib input_data_path (world s) = Inr df \<and>
    three_way_split lib df (world s) = Inl e \<longrightarrow>
      snd (preprocessing lib s) = Some e \<and>
      stdout (fst (preprocessing lib s)) = stdout s @ [''Shape of data is: '' @ str_pair (shape df)])"
proof (intro conjI impI; (elim conjE)?)
  assume r: "env_read_csv lib input_data_path (world s) = Inr df"
    and sp: "three_way_split lib df (world s) = Inr (train, validation, test)"
  let ?s1 = "s\<lparr>calls := calls s @ [ReadCsv input_data_path],
               stdout := stdout s @ [''Shape of data is: '' @ str_pair (shape df)]\<rparr>"
  let ?s2 = "fst (make_directories lib ?s1)"
  let ?s3 = "fst (write_files lib train validation test ?s2)"
  have run: "preprocessing lib s = (?s3\<lparr>stdout := stdout ?s3 @ [completion_marker]\<rparr>, None)"
    using r sp
    by (simp add: preprocessing_def Let_def then_do_ok make_directories_no_exception
        write_files_no_exception)
  show "snd (preprocessing lib s) = None" unfolding run by simp
  show "last (stdout (fst (preprocessing lib s))) = completion_marker" unfolding run by simp
  have "stdout ?s3 =
      stdout s @ [''Shape of data is: '' @ str_pair (shape df)] @
        directory_lines (snd (in_sequence (makedirs_calls lib) (world s))) @
        file_lines (snd (in_sequence (to_csv_calls lib train validation test)
                           (fst (in_sequence (makedirs_calls lib) (world s)))))"
    by (simp add: write_files_result make_directories_result)
  then show "stdout (fst (preprocessing lib s)) =
        stdout s @ [''Shape of data is: '' @ str_pair (shape df)] @
        directory_lines (snd (in_sequence (makedirs_calls lib) (world s))) @
        file_lines (snd (in_sequence (to_csv_calls lib train validation test)
                           (fst (in_sequence (makedirs_calls lib) (world s))))) @
        [completion_marker]"
    unfolding run by simp
next
  assume "env_read_csv lib input_data_path (world s) = Inl e"
  then show "preprocessing lib s = (s\<lparr>calls := calls s @ [ReadCsv input_data_path]\<rparr>, Some e)"
    by (simp add: preprocessing_def Let_def)
next
  assume r: "env_read_csv lib input_data_path (world s) = Inr df"
    and sp: "three_way_split lib df (world s) = Inl e"
  then show "snd (preprocessing lib s) = Some e"
    by (simp add: preprocessing_def Let_def)
  from r sp show "stdout (fst (preprocessing lib s)) = stdout s @ [''Shape of data is: '' @ str_pair (shape df)]"
    by (simp add: preprocessing_def Let_def)
qed

theorem preprocessing_marker_witness:
  "snd (preprocessing example_container example_start) = None \<and>
   last (stdout (fst (preprocessing example_container example_start))) = completion_marker \<and>
   stdout (fst (preprocessing example_container example_start)) =
     [''Shape of data is: '' @ str_pair (shape example_df)] @
     [exn_msg (FileExistsError train_dir), ''Could not make directories''] @
     [''Failed to write the files'', exn_msg (FileNotFoundError validation_csv)] @
     [completion_marker] \<and>
   snd (preprocessing example_container no_files_start) =
     Some (FileNotFoundError ''/opt/ml/processing/input/dataset.csv'') \<and>
   stdout (fst (preprocessing example_container no_files_start)) = [] \<and>
   snd (preprocessing example_container one_row_start) =
     Some (Exn ''ValueError'' ''the resulting train set will be empty'') \<and>
   stdout (fst (preprocessing example_container one_row_start)) = [''Shape of data is: (1, 1)'']"
proof -
  have sp: "three_way_split example_container example_df (world example_start) =
      Inr (fst example_parts, fst (snd example_parts), snd (snd example_parts))"
    using example_run(2) by simp
  have a: "snd (preprocessing example_container example_start) = None \<and>
      last (stdout (fst (preprocessing example_container example_start))) = completion_marker \<and>
      stdout (fst (preprocessing example_container example_start)) =
        stdout example_start @ [''Shape of data is: '' @ str_pair (shape example_df)] @
        directory_lines (snd (in_sequence (makedirs_calls example_container) (world example_start))) @
        file_lines (snd (in_sequence
           (to_csv_calls example_container (fst example_parts) (fst (snd example_parts))
              (snd (snd example_parts)))
           (fst (in_sequence (makedirs_calls example_container) (world example_start))))) @
        [completion_marker]"
    using preprocessing_marker [of example_container example_start example_df
        "fst example_parts" "fst (snd example_parts)" "snd (snd example_parts)"]
      example_run(1) sp by blast
  have b: "preprocessing example_container no_files_start =
      (no_files_start\<lparr>calls := calls no_files_start @ [ReadCsv input_data_path]\<rparr>,
       Some (FileNotFoundError ''/opt/ml/processing/input/dataset.csv''))"
    using preprocessing_marker [of example_container no_files_start _ _ _ _
        "FileNotFoundError ''/opt/ml/processing/input/dataset.csv''"] no_files_run
    by blast
  have c: "snd (preprocessing example_container one_row_start) =
        Some (Exn ''ValueError'' ''the resulting train set will be empty'') \<and>
      stdout (fst (preprocessing example_container one_row_start)) =
        stdout one_row_start @ [''Shape of data is: '' @ str_pair (shape one_row_df)]"
    using preprocessing_marker [of example_container one_row_start one_row_df _ _ _
        "Exn ''ValueError'' ''the resulting train set will be empty''"] one_row_run(1,2)
    by blast
  from a b c show ?thesis
    unfolding example_block_results
    by (simp add: one_row_run(3) no_files_start_def one_row_start_def example_start_def
        directory_lines_def file_lines_def)
qed

text \<open>
  C1 as the specification states it fails when the input file is missing: the script
  ends with FileNotFoundError and has printed nothing, so no failure diagnostic and no
  completion marker.
\<close>

theorem preprocessing_missing_input_counterexample:
  "snd (preprocessing example_container no_files_start) =
     Some (FileNotFoundError ''/opt/ml/processing/input/dataset.csv'') \<and>
   stdout (fst (preprocessing example_container no_files_start)) = []"
  by code_simp

text \<open>
  C9. The three directory creations are one \<open>try\<close> block and the three writes are
  another, each in the order train, validation, test. A block stops at its first
  failure: when creating the train directory fails, that is the only creation attempted;
  when writing \<open>train.csv\<close> fails, no other write is attempted; when \<open>train.csv\<close> is
  written and \<open>validation.csv\<close> fails, \<open>test.csv\<close> is not attempted. In every case the
  calls made are a beginning of the three in order, and neither block lets an exception
  out. So a run can leave only the first of the three outputs and still end normally
  with its marker: the example container, where the train directory already exists, ends
  with \<open>train.csv\<close> written and the other two files missing.
\<close>

theorem try_blocks_stop_at_first_failure:
  "(snd (env_makedirs lib train_dir (world s)) \<noteq> None \<longrightarrow>
      calls (fst (make_directories lib s)) = calls s @ [Makedirs train_dir] \<and>
      world (fst (make_directories lib s)) = fst (env_makedirs lib train_dir (world s))) \<and>
   (snd (env_to_csv lib train train_csv (world s)) \<noteq> None \<longrightarrow>
      calls (fst (write_files lib train validation test s)) = calls s @ [ToCsv train_csv] \<and>
      world (fst (write_files lib train validation test s)) =
        fst (env_to_csv lib train train_csv (world s))) \<and>
   (snd (env_to_csv lib train train_csv (world s)) = None \<and>
    snd (env_to_csv lib validation validation_csv (fst (env_to_csv lib train train_csv (world s))))
      \<noteq> None \<longrightarrow>
      calls (fst (write_files lib train validation test s)) =
        calls s @ [ToCsv train_csv, ToCsv validation_csv] \<and>
      world (fst (write_files lib train validation test s)) =
        fst (env_to_csv lib validation validation_csv
               (fst (env_to_csv lib train train_csv (world s))))) \<and>
   calls (fst (make_directories lib s)) \<in>
     {calls s @ [Makedirs train_dir],
      calls s @ [Makedirs train_dir, Makedirs validation_dir],
      calls s @ [Makedirs train_dir, Makedirs validation_dir, Makedirs test_dir]} \<and>
   calls (fst (write_files lib train validation test s)) \<in>
     {calls s @ [ToCsv train_csv],
      calls s @ [ToCsv train_csv, ToCsv validation_csv],
      calls s @ [ToCsv train_csv, ToCsv validation_csv, ToCsv test_csv]} \<and>
   snd (make_directories lib s) = None \<and>
   snd (write_files lib train validation test s) = None \<and>
   (snd (preprocessing example_container example_start) = None \<and>
    last (stdout (fst (preprocessing example_container example_start))) = completion_marker \<and>
    world (fst (preprocessing example_container example_start)) train_csv \<noteq> None \<and>
    world (fst (preprocessing example_container example_start)) validation_csv = None \<and>
    world (fst (preprocessing example_container example_start)) test_csv = None)"
proof (intro conjI impI; (elim conjE)?)
  show "snd (preprocessing example_container example_start) = None"
    "world (fst (preprocessing example_container example_start)) validation_csv = None"
    "world (fst (preprocessing example_container example_start)) test_csv = None"
    by (rule example_run)+
  show "world (fst (preprocessing example_container example_start)) train_csv \<noteq> None"
    by (simp add: example_run)
  show "last (stdout (fst (preprocessing example_container example_start))) = completion_marker"
    by (simp add: example_run completion_marker_def)
  show "snd (make_directories lib s) = None"
    by (rule make_directories_no_exception)
  show "snd (write_files lib train validation test s) = None"
    by (rule write_files_no_exception)
qed (auto simp: make_directories_def write_files_def try_except_def then_do_def
    call_makedirs_def call_to_csv_def split: prod.splits option.splits)


lemma example_blocks:
  "snd (env_makedirs example_container train_dir (world example_start)) \<noteq> None"
  "snd (env_to_csv example_container (fst example_parts) train_csv (world example_start)) = None"
  "snd (env_to_csv example_container (fst (snd example_parts)) validation_csv
     (fst (env_to_csv example_container (fst example_parts) train_csv (world example_start)))) \<noteq> None"
  "snd (env_to_csv example_container (fst example_parts) train_csv (world no_files_start)) \<noteq> None"
  by code_simp+

theorem try_blocks_stop_at_first_failure_witness:
  "calls (fst (make_directories example_container example_start)) = [Makedirs train_dir] \<and>
   calls (fst (write_files example_container (fst example_parts) (fst (snd example_parts))
                 (snd (snd example_parts)) example_start)) =
     [ToCsv train_csv, ToCsv validation_csv] \<and>
   calls (fst (write_files example_container (fst example_parts) (fst (snd example_parts))
                 (snd (snd example_parts)) no_files_start)) = [ToCsv train_csv] \<and>
   snd (preprocessing example_container example_start) = None \<and>
   last (stdout (fst (preprocessing example_container example_start))) = completion_marker \<and>
   world (fst (preprocessing example_container example_start)) train_csv =
     Some (File [['''', ''age'', ''class''], [''2'', ''38'', ''high''], [''3'', ''53'', ''low''],
                 [''4'', ''28'', ''high'']]) \<and>
   world (fst (preprocessing example_container example_start)) validation_csv = None \<and>
   world (fst (preprocessing example_container example_start)) test_csv = None"
proof -
  have a: "calls (fst (make_directories example_container example_start)) =
      calls example_start @ [Makedirs train_dir]"
    using try_blocks_stop_at_first_failure [of example_container example_start] example_blocks(1)
    by blast
  have b: "calls (fst (write_files example_container (fst example_parts) (fst (snd example_parts))
                 (snd (snd example_parts)) example_start)) =
      calls example_start @ [ToCsv train_csv, ToCsv validation_csv]"
    using try_blocks_stop_at_first_failure [of example_container example_start "fst example_parts"
        "fst (snd example_parts)" "snd (snd example_parts)"] example_blocks(2,3)
    by blast
  have c: "calls (fst (write_files example_container (fst example_parts) (fst (snd example_parts))
                 (snd (snd example_parts)) no_files_start)) =
      calls no_files_start @ [ToCsv train_csv]"
    using try_blocks_stop_at_first_failure [of example_container no_files_start "fst example_parts"
        "fst (snd example_parts)" "snd (snd example_parts)"] example_blocks(4)
    by blast
  from a b c example_run(3,4,6,7,8) show ?thesis
    by (simp add: example_start_def no_files_start_def completion_marker_def)
qed


section \<open>Proofs: staging the dataset\<close>

lemma dirname_dataset: "dirname ''dataset.csv'' = []"
  by (simp add: dirname_def)

lemma format_csv_fields:
  "length (format_csv df) = Suc (length (rows df))"
  "map length (format_csv df) = map (\<lambda>line. Suc (length line)) (columns df # map snd (rows df))"
  "map tl (format_csv df) = columns df # map snd (rows df)"
  "map hd (format_csv df) = [] # map (\<lambda>r. str_nat (fst r)) (rows df)"
  by (simp_all add: format_csv_def comp_def)

lemma map_fst_indexed:
  "length ks = length body \<Longrightarrow> map (\<lambda>r. f (fst r)) (zip ks body) = map f ks"
  by (induction ks body rule: list_induct2) simp_all

lemma frame_of_fields_rows:
  "map snd (rows (frame_of_fields header body)) = body"
  "map (\<lambda>r. str_nat (fst r)) (rows (frame_of_fields header body)) = map str_nat [0..<length body]"
  "columns (frame_of_fields header body) = header"
proof -
  have l: "length [0..<length body] = length body" by simp
  show "map snd (rows (frame_of_fields header body)) = body"
    using map_snd_zip [OF l] by (simp add: frame_of_fields_def)
  show "map (\<lambda>r. str_nat (fst r)) (rows (frame_of_fields header body)) =
      map str_nat [0..<length body]"
    using map_fst_indexed [OF l, of str_nat] by (simp add: frame_of_fields_def)
  show "columns (frame_of_fields header body) = header"
    by (simp add: frame_of_fields_def)
qed

lemma stage_dataset_writes:
  assumes "fs ''census-income.csv'' = Some (File content)" "read_table content = Inr df"
    "fs ''dataset.csv'' \<noteq> Some Dir"
  shows "stage_dataset read_table fs = (fs(''dataset.csv'' \<mapsto> File (format_csv df)), None)"
  using assms
  by (simp add: stage_dataset_def fs_read_csv_def fs_to_csv_def dirname_dataset)

text \<open>
  C2 (as the code has it). Let pandas read a frame from \<open>census-income.csv\<close> and let
  \<open>dataset.csv\<close> be writable. Then \<open>dataset.csv\<close> is that frame written with one column
  added in front: \<open>to_csv\<close> writes the index, so every line has one field more than the
  frame has columns, the header begins with an empty label and each row with its index
  label; behind that first column stand the frame's labels and values, in order, and no
  column is removed. Where pandas takes the file's fields as they stand (the first line
  as labels, the rows numbered from 0, every value printing as its field was written),
  the re-saved file is the downloaded one with the column 0, 1, 2, ... in front. When
  pandas refuses the file, the exception leaves the step and nothing is written.
\<close>

theorem stage_dataset_adds_index_column:
  "(fs ''census-income.csv'' = Some (File content) \<and> read_table content = Inr df \<and>
    fs ''dataset.csv'' \<noteq> Some Dir \<longrightarrow>
     (\<exists>staged.
        stage_dataset read_table fs = (fs(''dataset.csv'' \<mapsto> File staged), None) \<and>
        length staged = Suc (length (rows df)) \<and>
        map length staged = map (\<lambda>line. Suc (length line)) (columns df # map snd (rows df)) \<and>
        map tl staged = columns df # map snd (rows df) \<and>
        map hd staged = [] # map (\<lambda>r. str_nat (fst r)) (rows df))) \<and>
   (fs ''census-income.csv'' = Some (File (header # body)) \<and>
    read_table (header # body) = Inr (frame_of_fields header body) \<and>
    fs ''dataset.csv'' \<noteq> Some Dir \<longrightarrow>
     (\<exists>staged.
        stage_dataset read_table fs = (fs(''dataset.csv'' \<mapsto> File staged), None) \<and>
        length staged = length (header # body) \<and>
        map tl staged = header # body \<and>
        map hd staged = [] # map str_nat [0..<length body])) \<and>
   (fs ''census-income.csv'' = Some (File content) \<and> read_table content = Inl e \<longrightarrow>
      stage_dataset read_table fs = (fs, Some e))"
proof (intro conjI impI; elim conjE)
  assume f: "fs ''census-income.csv'' = Some (File content)"
    and r: "read_table content = Inr df" and d: "fs ''dataset.csv'' \<noteq> Some Dir"
  show "\<exists>staged.
        stage_dataset read_table fs = (fs(''dataset.csv'' \<mapsto> File staged), None) \<and>
        length staged = Suc (length (rows df)) \<and>
        map length staged = map (\<lambda>line. Suc (length line)) (columns df # map snd (rows df)) \<and>
        map tl staged = columns df # map snd (rows df) \<and>
        map hd staged = [] # map (\<lambda>r. str_nat (fst r)) (rows df)"
  proof -
    have st: "stage_dataset read_table fs = (fs(''dataset.csv'' \<mapsto> File (format_csv df)), None)"
      using f r d by (rule stage_dataset_writes)
    show ?thesis
      by (intro exI [of _ "format_csv df"] conjI st format_csv_fields)
  qed
next
  assume f: "fs ''census-income.csv'' = Some (File (header # body))"
    and r: "read_table (header # body) = Inr (frame_of_fields header body)"
    and d: "fs ''dataset.csv'' \<noteq> Some Dir"
  let ?df = "frame_of_fields header body"
  have "length (format_csv ?df) = length (header # body)"
    by (simp add: format_csv_def frame_of_fields_def)
  moreover have "map tl (format_csv ?df) = header # body"
    by (simp only: format_csv_fields frame_of_fields_rows)
  moreover have "map hd (format_csv ?df) = [] # map str_nat [0..<length body]"
    by (simp only: format_csv_fields frame_of_fields_rows)
  ultimately show "\<exists>staged.
        stage_dataset read_table fs = (fs(''dataset.csv'' \<mapsto> File staged), None) \<and>
        length staged = length (header # body) \<and>
        map tl staged = header # body \<and>
        map hd staged = [] # map str_nat [0..<length body]"
    using stage_dataset_writes [of fs "header # body" read_table ?df, OF f r d]
    by (intro exI [of _ "format_csv ?df"]) simp
next
  assume "fs ''census-income.csv'' = Some (File content)" "read_table content = Inl e"
  then show "stage_dataset read_table fs = (fs, Some e)"
    by (simp add: stage_dataset_def fs_read_csv_def)
qed

lemma example_csv_lines:
  "hd example_csv # tl example_csv = example_csv" "length example_csv = 6"
  by (simp_all add: example_csv_def)

lemma example_index_labels:
  "[] # map str_nat [0..<length (tl example_csv)] = ['''', ''0'', ''1'', ''2'', ''3'', ''4'']"
  by code_simp

lemma example_read_as_written:
  "read_examples (hd example_csv # tl example_csv) =
     Inr (frame_of_fields (hd example_csv) (tl example_csv))"
  by code_simp

theorem stage_dataset_adds_index_column_witness:
  "\<exists>staged.
     stage_dataset read_examples (map_of [(''census-income.csv'', File example_csv)]) =
       ((map_of [(''census-income.csv'', File example_csv)])(''dataset.csv'' \<mapsto> File staged),
        None) \<and>
     length staged = 6 \<and>
     map tl staged = example_csv \<and>
     map hd staged = ['''', ''0'', ''1'', ''2'', ''3'', ''4'']"
proof -
  let ?fs = "map_of [(''census-income.csv'', File example_csv)]"
  have "?fs ''census-income.csv'' = Some (File example_csv)"
    by simp
  then have f: "?fs ''census-income.csv'' = Some (File (hd example_csv # tl example_csv))"
    by (simp only: example_csv_lines)
  have d: "?fs ''dataset.csv'' \<noteq> Some Dir"
    by simp
  have "\<exists>staged.
        stage_dataset read_examples ?fs = (?fs(''dataset.csv'' \<mapsto> File staged), None) \<and>
        length staged = length (hd example_csv # tl example_csv) \<and>
        map tl staged = hd example_csv # tl example_csv \<and>
        map hd staged = [] # map str_nat [0..<length (tl example_csv)]"
    using stage_dataset_adds_index_column [of ?fs _ read_examples _ "hd example_csv"
        "tl example_csv"] f d example_read_as_written
    by (simp only: simp_thms)
  then show ?thesis
    by (simp only: example_csv_lines example_index_labels)
qed

text \<open>
  C2 as the specification states it fails: on the example file the re-saved
  \<open>dataset.csv\<close> has three columns where \<open>census-income.csv\<close> has two.
\<close>

theorem stage_dataset_counterexample:
  "fst (stage_dataset read_examples (map_of [(''census-income.csv'', File example_csv)]))
     ''dataset.csv'' =
     Some (File [['''', ''age'', ''class''],
                 [''0'', ''39'', ''low''], [''1'', ''50'', ''low''], [''2'', ''38'', ''high''],
                 [''3'', ''53'', ''low''], [''4'', ''28'', ''high'']]) \<and>
   fst (stage_dataset read_examples (map_of [(''census-income.csv'', File example_csv)]))
     ''census-income.csv'' =
     Some (File [[''age'', ''class''],
                 [''39'', ''low''], [''50'', ''low''], [''38'', ''high''],
                 [''53'', ''low''], [''28'', ''high'']]) \<and>
   fst (stage_dataset read_examples (map_of [(''census-income.csv'', File example_csv)]))
     ''dataset.csv'' \<noteq>
     fst (stage_dataset read_examples (map_of [(''census-income.csv'', File example_csv)]))
       ''census-income.csv''"
  by code_simp


end
